theory Spec2Isabelle
  imports Complex_Main
begin

section \<open>Python values and exceptions\<close>

text \<open>
  The exceptions the modelled code can raise. \<open>ValueError\<close> and \<open>AttributeError\<close>
  carry the message (resp. the attribute name), so that the error raised by
  \<open>translate_gene_ids\<close> can be told apart from any other. \<open>LoadFailure\<close> stands for
  whatever \<open>pd.read_table\<close> raises when a file or URL cannot be read.
\<close>

datatype py_error =
    ValueError string
  | AttributeError string
  | TypeError
  | UnboundLocalError string
  | IndexError
  | LoadFailure

section \<open>Python built-ins used by the code\<close>

text \<open>
  Strings are byte strings here, so \<open>str.lower\<close> and \<open>str.upper\<close> act on the ASCII
  letters and leave every other character alone.
\<close>

definition ascii_uppercase :: string where
  "ascii_uppercase = ''ABCDEFGHIJKLMNOPQRSTUVWXYZ''"

definition ascii_lowercase :: string where
  "ascii_lowercase = ''abcdefghijklmnopqrstuvwxyz''"

definition str_lower :: "string \<Rightarrow> string" where
  "str_lower s =
     map (\<lambda>c. case map_of (zip ascii_uppercase ascii_lowercase) c of Some d \<Rightarrow> d | None \<Rightarrow> c) s"

definition str_upper :: "string \<Rightarrow> string" where
  "str_upper s =
     map (\<lambda>c. case map_of (zip ascii_lowercase ascii_uppercase) c of Some d \<Rightarrow> d | None \<Rightarrow> c) s"

text \<open>\<open>str(i)\<close> for an integer: its decimal digits, with a minus sign when negative.\<close>

definition digit_chars :: string where
  "digit_chars = ''0123456789''"

function str_nat :: "nat \<Rightarrow> string" where
  "str_nat n = (if n < 10 then [digit_chars ! n] else str_nat (n div 10) @ [digit_chars ! (n mod 10)])"
  by pat_completeness auto
termination
  by (relation "measure id") auto

definition str_int :: "int \<Rightarrow> string" where
  "str_int i = (if i < 0 then CHR ''-'' # str_nat (nat (- i)) else str_nat (nat i))"

text \<open>
  \<open>int(x)\<close> as \<open>__init__\<close> applies it to \<open>weight_seed\<close>: the argument is \<open>None\<close>
  (the default), an integer, or a string. A string is stripped of surrounding ASCII
  whitespace and must then be an optional sign followed by decimal digits, where
  single underscores may separate digits.
\<close>

datatype seed_arg = SeedNone | SeedInt int | SeedStr string

definition digit_value :: "char \<Rightarrow> nat option" where
  "digit_value c = map_of (zip digit_chars [0 ..< 10]) c"

fun digits_value :: "nat \<Rightarrow> string \<Rightarrow> nat option" where
  "digits_value acc [] = Some acc"
| "digits_value acc (c # cs) =
     (case digit_value c of
        Some d \<Rightarrow> digits_value (10 * acc + d) cs
      | None \<Rightarrow>
          if c = CHR ''_'' then
            (case cs of
               [] \<Rightarrow> None
             | c' # cs' \<Rightarrow>
                 (case digit_value c' of
                    Some d \<Rightarrow> digits_value (10 * acc + d) cs'
                  | None \<Rightarrow> None))
          else None)"

definition parse_digits :: "string \<Rightarrow> nat option" where
  "parse_digits s =
     (case s of
        [] \<Rightarrow> None
      | c # cs \<Rightarrow> (case digit_value c of Some d \<Rightarrow> digits_value d cs | None \<Rightarrow> None))"

definition is_space :: "char \<Rightarrow> bool" where
  "is_space c = (c \<in> set [CHR '' '', CHR 0x09, CHR 0x0A, CHR 0x0B, CHR 0x0C, CHR 0x0D,
                           CHR 0x1C, CHR 0x1D, CHR 0x1E, CHR 0x1F])"

definition str_strip :: "string \<Rightarrow> string" where
  "str_strip s = rev (dropWhile is_space (rev (dropWhile is_space s)))"

definition int_of_str :: "string \<Rightarrow> int option" where
  "int_of_str s =
     (case str_strip s of
        [] \<Rightarrow> None
      | c # cs \<Rightarrow>
          if c = CHR ''-'' then map_option (\<lambda>n. - int n) (parse_digits cs)
          else if c = CHR ''+'' then map_option int (parse_digits cs)
          else map_option int (parse_digits (c # cs)))"

definition py_int :: "seed_arg \<Rightarrow> py_error + int" where
  "py_int x =
     (case x of
        SeedNone \<Rightarrow> Inl TypeError
      | SeedInt i \<Rightarrow> Inr i
      | SeedStr s \<Rightarrow>
          (case int_of_str s of
             None \<Rightarrow> Inl (ValueError ''invalid literal for int() with base 10'')
           | Some i \<Rightarrow> Inr i))"


fun str_contains :: "string \<Rightarrow> string \<Rightarrow> bool" where
  "str_contains pat [] = (pat = [])"
| "str_contains pat (c # cs) = (take (length pat) (c # cs) = pat \<or> str_contains pat cs)"

section \<open>Gene dictionary and synonym map (8.gtex-interpret, 1B.download-hematopoietic-data)\<close>

text \<open>
  A row of the curated gene table \<open>genes.tsv\<close>. The \<open>synonyms\<close> cell is a
  pipe-delimited string, or missing (\<open>None\<close> is pandas' NaN).
\<close>

record gene_row =
  entrez_gene_id :: int
  symbol :: string
  gene_type :: string
  synonyms :: "string option"

text \<open>
  \<open>dict(pairs)\<close>: a later pair overrides an earlier one with the same key.
\<close>

definition py_dict :: "('k \<times> 'v) list \<Rightarrow> ('k \<rightharpoonup> 'v)" where
  "py_dict kvs = map_of (rev kvs)"

text \<open>\<open>s.split(sep)\<close> for a one-character separator; the empty string gives \<open>['']\<close>.\<close>

fun str_split :: "char \<Rightarrow> string \<Rightarrow> string list" where
  "str_split sep [] = [[]]"
| "str_split sep (c # cs) =
     (if c = sep then [] # str_split sep cs
      else (case str_split sep cs of [] \<Rightarrow> [[c]] | p # ps \<Rightarrow> (c # p) # ps))"

text \<open>\<open>gene_df.query("gene_type == 'protein-coding'")\<close>.\<close>

definition protein_coding :: "gene_row list \<Rightarrow> gene_row list" where
  "protein_coding gene_df = filter (\<lambda>g. gene_type g = ''protein-coding'') gene_df"

text \<open>Cell 6: \<open>symbol_to_entrez = dict(zip(gene_df.symbol, gene_df.entrez_gene_id))\<close>.\<close>

definition primary_symbol_to_entrez :: "gene_row list \<Rightarrow> (string \<rightharpoonup> int)" where
  "primary_symbol_to_entrez gene_df =
     py_dict (zip (map symbol (protein_coding gene_df)) (map entrez_gene_id (protein_coding gene_df)))"

text \<open>
  Cell 7, first half: rows without synonyms are dropped, the string is split at
  \<open>|\<close>, and \<open>gene_df.join(all_syn)\<close> repeats each gene's row once per synonym, in
  the order of the table and of the synonyms. A joined row is the pair of the gene's
  row and its \<open>all_synonyms\<close> cell.
\<close>

definition all_syn :: "gene_row list \<Rightarrow> (gene_row \<times> string) list" where
  "all_syn gene_df =
     concat (map (\<lambda>g. case synonyms g of None \<Rightarrow> [] | Some s \<Rightarrow> map (Pair g) (str_split CHR ''|'' s))
                 (protein_coding gene_df))"

text \<open>
  \<open>.drop_duplicates(['all_synonyms'], keep=False)\<close>: every row whose synonym occurs
  in more than one row goes.
\<close>

definition drop_duplicates :: "(gene_row \<times> string) list \<Rightarrow> (gene_row \<times> string) list" where
  "drop_duplicates rows = filter (\<lambda>(g, s). count_list (map snd rows) s = 1) rows"

text \<open>
  \<open>.query('symbol not in all_synonyms')\<close>: in a pandas query \<open>a not in b\<close> between
  two columns is \<open>~a.isin(b)\<close>, so a row stays when its \<open>symbol\<close> cell is not a
  value of the \<open>all_synonyms\<close> column of the frame being queried.
\<close>

definition query_symbol_not_in_all_synonyms :: "(gene_row \<times> string) list \<Rightarrow> (gene_row \<times> string) list" where
  "query_symbol_not_in_all_synonyms rows = filter (\<lambda>(g, s). symbol g \<notin> set (map snd rows)) rows"

definition gene_with_syn_df :: "gene_row list \<Rightarrow> (gene_row \<times> string) list" where
  "gene_with_syn_df gene_df = query_symbol_not_in_all_synonyms (drop_duplicates (all_syn gene_df))"

text \<open>Cell 8: the synonym dictionary, and \<open>symbol_to_entrez.update(synonym_to_entrez)\<close>.\<close>

definition synonym_to_entrez :: "gene_row list \<Rightarrow> (string \<rightharpoonup> int)" where
  "synonym_to_entrez gene_df =
     py_dict (zip (map snd (gene_with_syn_df gene_df)) (map (entrez_gene_id \<circ> fst) (gene_with_syn_df gene_df)))"

definition symbol_to_entrez :: "gene_row list \<Rightarrow> (string \<rightharpoonup> int)" where
  "symbol_to_entrez gene_df = primary_symbol_to_entrez gene_df ++ synonym_to_entrez gene_df"

text \<open>
  An example table: \<open>Y\<close> is a synonym of two genes, the primary symbol \<open>A\<close> is a
  synonym of gene \<open>B\<close>, gene \<open>D\<close> is not protein-coding and gene \<open>E\<close> has no synonyms.
\<close>

definition gene_A :: gene_row where
  "gene_A = \<lparr>entrez_gene_id = 1, symbol = ''A'', gene_type = ''protein-coding'', synonyms = Some ''X|Y''\<rparr>"

definition gene_B :: gene_row where
  "gene_B = \<lparr>entrez_gene_id = 2, symbol = ''B'', gene_type = ''protein-coding'', synonyms = Some ''A|Y''\<rparr>"

definition gene_C :: gene_row where
  "gene_C = \<lparr>entrez_gene_id = 3, symbol = ''C'', gene_type = ''protein-coding'', synonyms = Some ''Z''\<rparr>"

definition gene_D :: gene_row where
  "gene_D = \<lparr>entrez_gene_id = 4, symbol = ''D'', gene_type = ''pseudo'', synonyms = Some ''W''\<rparr>"

definition gene_E :: gene_row where
  "gene_E = \<lparr>entrez_gene_id = 5, symbol = ''E'', gene_type = ''protein-coding'', synonyms = None\<rparr>"

definition example_genes :: "gene_row list" where
  "example_genes = [gene_A, gene_B, gene_C, gene_D, gene_E]"

section \<open>The weight matrix and its views (scripts/latent.py, class latentModel)\<close>

subsection \<open>Frames and series\<close>

text \<open>
  A gene identifier is an integer (an Entrez id) or a string (a symbol). A row label
  of a frame is an identifier, or missing: \<open>None\<close> is pandas' NaN, which is what
  \<open>Series.map\<close> leaves for an identifier it cannot translate. A weight is a real
  number or NaN; the floating-point weights of the files are idealised as reals.

  A frame is column-major: the row labels and the named columns, every column as long
  as the index, with distinct column names as \<open>pd.read_table\<close> delivers them. The
  weight matrix \<open>w_df\<close> is a frame of weights. The views derived from it hold
  weights, booleans or, in long format, labels, so their cells are dynamically
  typed.
\<close>

datatype ident = IntId int | StrId string

type_synonym label = "ident option"
type_synonym weight = "real option"

datatype cell = Num real | Flag bool | Lab ident | NA

record 'a frame =
  df_index :: "label list"
  df_columns :: "(string \<times> 'a list) list"

record series =
  s_name :: string
  s_index :: "label list"
  s_values :: "cell list"

definition weight_cell :: "weight \<Rightarrow> cell" where
  "weight_cell w = (case w of None \<Rightarrow> NA | Some v \<Rightarrow> Num v)"

definition label_cell :: "label \<Rightarrow> cell" where
  "label_cell l = (case l of None \<Rightarrow> NA | Some i \<Rightarrow> Lab i)"

definition cells_frame :: "weight frame \<Rightarrow> cell frame" where
  "cells_frame df =
     \<lparr>df_index = df_index df, df_columns = map (\<lambda>(name, col). (name, map weight_cell col)) (df_columns df)\<rparr>"

text \<open>\<open>str(k)\<close> for a row key; \<open>Series.dropna()\<close>; \<open>df.loc[:, mask]\<close> for a mask as long as the columns.\<close>

definition py_str :: "ident \<Rightarrow> string" where
  "py_str k = (case k of IntId i \<Rightarrow> str_int i | StrId s \<Rightarrow> s)"

definition dropna :: "cell list \<Rightarrow> cell list" where
  "dropna vs = filter (\<lambda>c. c \<noteq> NA) vs"

definition loc_columns :: "(string \<times> 'a list) list \<Rightarrow> bool list \<Rightarrow> (string \<times> 'a list) list" where
  "loc_columns cols keep = map fst (filter snd (zip cols keep))"

subsection \<open>The model object\<close>

text \<open>
  The attributes of a \<open>latentModel\<close>. An attribute that a method sets later is
  \<open>None\<close> until then; reading it before raises \<open>AttributeError\<close>.
\<close>

record latentModel =
  filename :: string
  w_df :: "weight frame"
  z_dim :: "int option"
  dataset_name :: string
  weight_seed :: int
  shuffled_true :: bool
  is_gene_dictionary_loaded :: bool
  algorithm_name :: "string option"
  gene_dictionary_df :: "gene_row list option"
  pos_high_w_df :: "cell frame option"
  neg_high_w_df :: "cell frame option"
  high_weight_std_cutoff :: "real option"
  pos_w_df :: "cell frame option"
  neg_w_df :: "cell frame option"
  sqr_w_df :: "cell frame option"

text \<open>
  \<open>__init__\<close>. Reading the file is the parameter \<open>read_table\<close>: the parsed row keys
  and columns of the file, or \<open>None\<close> when it cannot be read. The defaults of
  \<open>dataset_name\<close> and \<open>weight_seed\<close> are \<open>None\<close>, on which \<open>.upper()\<close> and \<open>int\<close>
  raise. An empty \<open>algorithm_name\<close> is falsy like \<open>None\<close>.
\<close>

definition latentModel_init ::
  "(string \<Rightarrow> (ident list \<times> (string \<times> weight list) list) option) \<Rightarrow>
   string \<Rightarrow> int option \<Rightarrow> string option \<Rightarrow> string option \<Rightarrow> seed_arg \<Rightarrow> bool \<Rightarrow>
   py_error + latentModel" where
  "latentModel_init read_table fname zdim dataset algorithm seed shuffled =
     (case read_table fname of
        None \<Rightarrow> Inl LoadFailure
      | Some (raw_index, cols) \<Rightarrow>
          (case dataset of
             None \<Rightarrow> Inl (AttributeError ''upper'')
           | Some name \<Rightarrow>
               (case py_int seed of
                  Inl e \<Rightarrow> Inl e
                | Inr seed_int \<Rightarrow>
                    let lm = \<lparr>filename = fname,
                              w_df = \<lparr>df_index = map (\<lambda>k. Some (StrId (py_str k))) raw_index,
                                      df_columns = cols\<rparr>,
                              z_dim = zdim,
                              dataset_name = str_upper name,
                              weight_seed = seed_int,
                              shuffled_true = shuffled,
                              is_gene_dictionary_loaded = False,
                              algorithm_name = None,
                              gene_dictionary_df = None,
                              pos_high_w_df = None,
                              neg_high_w_df = None,
                              high_weight_std_cutoff = None,
                              pos_w_df = None,
                              neg_w_df = None,
                              sqr_w_df = None\<rparr>
                    in (case algorithm of
                          None \<Rightarrow> Inr lm
                        | Some a \<Rightarrow>
                            if a = [] then Inr lm
                            else
                              let alg = str_lower a;
                                  use_cols = map (\<lambda>(name, col). str_contains alg name) (df_columns (w_df lm))
                              in Inr (lm\<lparr>algorithm_name := Some alg,
                                         w_df := (w_df lm)\<lparr>df_columns := loc_columns (df_columns (w_df lm)) use_cols\<rparr>\<rparr>)))))"

subsection \<open>Long format\<close>

text \<open>
  \<open>_split_genes\<close>: \<open>df.stack()\<close> walks the frame row by row and drops the missing
  cells, \<open>reset_index()\<close> numbers the stacked rows and turns the two index levels into
  columns, the three columns are renamed, and \<open>dropna()\<close> drops the rows that still
  have a missing cell, which can only be the row label.
\<close>

definition stack_frame :: "cell frame \<Rightarrow> (label \<times> string \<times> cell) list" where
  "stack_frame df =
     concat (map (\<lambda>(lab, row).
                    map (\<lambda>(name, c). (lab, name, c))
                        (filter (\<lambda>(name, c). c \<noteq> NA) (zip (map fst (df_columns df)) row)))
                 (zip (df_index df) (transpose (map snd (df_columns df)))))"

definition long_frame :: "cell frame \<Rightarrow> cell frame" where
  "long_frame df =
     (let kept = filter (\<lambda>(k, (lab, name, c)). lab \<noteq> None) (enumerate 0 (stack_frame df))
      in \<lparr>df_index = map (\<lambda>(k, r). Some (IntId (int k))) kept,
          df_columns =
            [(''entrez_gene'', map (\<lambda>(k, (lab, name, c)). label_cell lab) kept),
             (''feature'', map (\<lambda>(k, (lab, name, c)). Lab (StrId name)) kept),
             (''feature_weight'', map (\<lambda>(k, (lab, name, c)). c) kept)]\<rparr>)"

definition split_genes :: "cell frame \<Rightarrow> cell frame \<Rightarrow> cell frame \<times> cell frame" where
  "split_genes pos neg = (long_frame pos, long_frame neg)"

subsection \<open>Distribution views\<close>

text \<open>
  \<open>DataFrame.mean()\<close> and \<open>DataFrame.std()\<close> work column by column and skip missing
  cells. The mean of no values is NaN; \<open>std\<close> is the sample standard deviation
  (\<open>ddof = 1\<close>), NaN for fewer than two values. Arithmetic with NaN gives NaN, and
  a comparison with NaN on either side is false.
\<close>

definition present :: "weight list \<Rightarrow> real list" where
  "present col = concat (map (\<lambda>w. case w of None \<Rightarrow> [] | Some v \<Rightarrow> [v]) col)"

definition col_mean :: "weight list \<Rightarrow> weight" where
  "col_mean col =
     (let xs = present col
      in if xs = [] then None else Some (sum_list xs / real (length xs)))"

definition col_std :: "weight list \<Rightarrow> weight" where
  "col_std col =
     (let xs = present col; n = length xs
      in if n < 2 then None
         else Some (sqrt (sum_list (map (\<lambda>x. (x - sum_list xs / real n)\<^sup>2) xs) / real (n - 1))))"

definition nan_times :: "real \<Rightarrow> weight \<Rightarrow> weight" where
  "nan_times k w = map_option (\<lambda>v. k * v) w"

definition nan_plus :: "weight \<Rightarrow> weight \<Rightarrow> weight" where
  "nan_plus a b = (case a of None \<Rightarrow> None | Some x \<Rightarrow> map_option (\<lambda>y. x + y) b)"

definition nan_minus :: "weight \<Rightarrow> weight \<Rightarrow> weight" where
  "nan_minus a b = (case a of None \<Rightarrow> None | Some x \<Rightarrow> map_option (\<lambda>y. x - y) b)"

definition weight_ge :: "weight \<Rightarrow> weight \<Rightarrow> bool" where
  "weight_ge w t = (case w of None \<Rightarrow> False | Some v \<Rightarrow> (case t of None \<Rightarrow> False | Some u \<Rightarrow> u \<le> v))"

definition weight_le :: "weight \<Rightarrow> weight \<Rightarrow> bool" where
  "weight_le w t = (case w of None \<Rightarrow> False | Some v \<Rightarrow> (case t of None \<Rightarrow> False | Some u \<Rightarrow> v \<le> u))"

text \<open>
  \<open>get_high_weight_genes(std_dev=2.5, long_format=False)\<close>. \<open>w_df.ge(series)\<close>
  compares every column with the entry of the series for that column.
\<close>

definition get_high_weight_genes :: "latentModel \<Rightarrow> real \<Rightarrow> bool \<Rightarrow> latentModel" where
  "get_high_weight_genes lm std_dev long_format =
     (let cols = df_columns (w_df lm);
          feature_mean = map (\<lambda>(name, col). col_mean col) cols;
          std_dev_cutoff = map (\<lambda>(name, col). nan_times std_dev (col_std col)) cols;
          pos_cut = map2 nan_plus feature_mean std_dev_cutoff;
          neg_cut = map2 nan_minus feature_mean std_dev_cutoff;
          pos = \<lparr>df_index = df_index (w_df lm),
                 df_columns = map2 (\<lambda>(name, col) t. (name, map (\<lambda>w. Flag (weight_ge w t)) col)) cols pos_cut\<rparr>;
          neg = \<lparr>df_index = df_index (w_df lm),
                 df_columns = map2 (\<lambda>(name, col) t. (name, map (\<lambda>w. Flag (weight_le w t)) col)) cols neg_cut\<rparr>;
          views = (if long_format then split_genes pos neg else (pos, neg))
      in lm\<lparr>pos_high_w_df := Some (fst views),
            neg_high_w_df := Some (snd views),
            high_weight_std_cutoff := Some std_dev\<rparr>)"

text \<open>\<open>split_pos_neg_genes(long_format=False)\<close>: \<open>w_df[w_df > 0]\<close> blanks the other cells.\<close>

definition split_pos_neg_genes :: "latentModel \<Rightarrow> bool \<Rightarrow> latentModel" where
  "split_pos_neg_genes lm long_format =
     (let cols = df_columns (w_df lm);
          pos = \<lparr>df_index = df_index (w_df lm),
                 df_columns = map (\<lambda>(name, col).
                                (name, map (\<lambda>w. case w of None \<Rightarrow> NA | Some v \<Rightarrow> if 0 < v then Num v else NA) col)) cols\<rparr>;
          neg = \<lparr>df_index = df_index (w_df lm),
                 df_columns = map (\<lambda>(name, col).
                                (name, map (\<lambda>w. case w of None \<Rightarrow> NA | Some v \<Rightarrow> if v < 0 then Num v else NA) col)) cols\<rparr>;
          views = (if long_format then split_genes pos neg else (pos, neg))
      in lm\<lparr>pos_w_df := Some (fst views), neg_w_df := Some (snd views)\<rparr>)"

text \<open>\<open>get_squared_distribution\<close>: \<open>w_df ** 2\<close>.\<close>

definition get_squared_distribution :: "latentModel \<Rightarrow> latentModel" where
  "get_squared_distribution lm =
     lm\<lparr>sqr_w_df :=
          Some \<lparr>df_index = df_index (w_df lm),
                df_columns = map (\<lambda>(name, col). (name, map (\<lambda>w. weight_cell (map_option (\<lambda>v. v\<^sup>2) w)) col))
                                 (df_columns (w_df lm))\<rparr>\<rparr>"

subsection \<open>Gene identifier translation\<close>

text \<open>
  \<open>_load_gene_dict(hash)\<close> reads the gene table from a URL built from the commit
  hash; the download is the parameter \<open>read_url\<close>, \<open>None\<close> when it fails. The
  exception of a failed download leaves the object as it was.
\<close>

definition default_hash :: string where
  "default_hash = ''ad9631bb4e77e2cdc5413b0d77cb8f7e93fc5bee''"

definition gene_dict_url :: "string \<Rightarrow> string" where
  "gene_dict_url hash = ''https://raw.githubusercontent.com/cognoma/genes/'' @ hash @ ''/data/genes.tsv''"

definition load_gene_dict ::
  "(string \<Rightarrow> gene_row list option) \<Rightarrow> latentModel \<Rightarrow> string \<Rightarrow> py_error + latentModel" where
  "load_gene_dict read_url lm hash =
     (case read_url (gene_dict_url hash) of
        None \<Rightarrow> Inl LoadFailure
      | Some rows \<Rightarrow>
          Inr (lm\<lparr>gene_dictionary_df := Some (protein_coding rows), is_gene_dictionary_loaded := True\<rparr>))"

text \<open>
  A cell and a column of the gene table by column name, as identifiers. The method
  reads the two columns that the namespace check lets through: the numeric
  \<open>entrez_gene_id\<close> and the string \<open>symbol\<close>.
\<close>

definition gene_cell :: "gene_row \<Rightarrow> string \<Rightarrow> ident" where
  "gene_cell g namespace = (if namespace = ''entrez_gene_id'' then IntId (entrez_gene_id g) else StrId (symbol g))"

definition gene_column :: "gene_row list \<Rightarrow> string \<Rightarrow> ident list" where
  "gene_column df namespace = map (\<lambda>g. gene_cell g namespace) df"

definition invalid_namespace :: py_error where
  "invalid_namespace = ValueError ''Translation for 'entrez_gene_id' and 'symbol' only''"

text \<open>
  \<open>translate_gene_ids(gene_list, translate_from, translate_to, **kwargs)\<close>. The
  result pairs the object after the call with the exception raised or the translated
  series; \<open>Series.map(dict)\<close> leaves NaN, here \<open>None\<close>, for a key the dictionary
  lacks, and for an entry of the list that is itself missing. The keyword argument
  \<open>hash\<close> is \<open>hash_kw\<close>, \<open>None\<close> when it is not given.
\<close>

definition translate_gene_ids ::
  "(string \<Rightarrow> gene_row list option) \<Rightarrow> latentModel \<Rightarrow> label list \<Rightarrow> string \<Rightarrow> string \<Rightarrow> string option \<Rightarrow>
   latentModel \<times> (py_error + label list)" where
  "translate_gene_ids read_url lm gene_list translate_from translate_to hash_kw =
     (let hash = (case hash_kw of None \<Rightarrow> default_hash | Some h \<Rightarrow> h);
          choices = [''entrez_gene_id'', ''symbol'']
      in if translate_from \<notin> set choices \<or> translate_to \<notin> set choices then (lm, Inl invalid_namespace)
         else
           (case (if \<not> is_gene_dictionary_loaded lm then load_gene_dict read_url lm hash else Inr lm) of
              Inl e \<Rightarrow> (lm, Inl e)
            | Inr lm' \<Rightarrow>
                (case gene_dictionary_df lm' of
                   None \<Rightarrow> (lm', Inl (AttributeError ''gene_dictionary_df''))
                 | Some df \<Rightarrow>
                     let gene_mapper = py_dict (zip (gene_column df translate_from) (gene_column df translate_to))
                     in (lm', Inr (map (\<lambda>l. case l of None \<Rightarrow> None | Some i \<Rightarrow> gene_mapper i) gene_list)))))"

subsection \<open>The aggregator\<close>

text \<open>
  \<open>_get_compressed_feature\<close>: \<open>.loc[:, subset_algs]\<close> raises \<open>IndexError\<close> for a
  boolean array that is not as long as the frame has columns, and
  \<open>.iloc[:, current_z]\<close> raises it past the last selected column.
\<close>

definition get_compressed_feature :: "cell frame \<Rightarrow> bool list \<Rightarrow> nat \<Rightarrow> py_error + series" where
  "get_compressed_feature weight_df subset_algs cz =
     (if length subset_algs \<noteq> length (df_columns weight_df) then Inl IndexError
      else
        let selected = loc_columns (df_columns weight_df) subset_algs
        in if length selected \<le> cz then Inl IndexError
           else Inr \<lparr>s_name = fst (selected ! cz), s_index = df_index weight_df,
                     s_values = snd (selected ! cz)\<rparr>)"

text \<open>
  The provenance columns that \<open>_get_gsea_results\<close> assigns to every row of an
  engine result. The enrichment engine \<open>run_gsea_prerank\<close> is called by the class but
  defined nowhere in the repository's files; it is the parameter \<open>engine\<close>, taking the
  ranked scores, the permutation count and the gene-set collection and returning its
  rows or raising.
\<close>

record 'sd provenance =
  distrib :: string
  algorithm :: string
  current_z :: nat
  full_z :: int
  shuffled :: bool
  direction :: string
  seed :: 'sd

definition get_gsea_results ::
  "(series \<Rightarrow> int \<Rightarrow> string \<Rightarrow> py_error + 'row list) \<Rightarrow> series \<Rightarrow> string \<Rightarrow> nat \<Rightarrow> int \<Rightarrow> string \<Rightarrow> int \<Rightarrow>
   bool \<Rightarrow> string \<Rightarrow> 'sd \<Rightarrow> string \<Rightarrow> py_error + ('row \<times> 'sd provenance) list" where
  "get_gsea_results engine use alg cz fz dname num_perm shuf dir sd gene_sets =
     (case engine use num_perm gene_sets of
        Inl e \<Rightarrow> Inl e
      | Inr results_df \<Rightarrow>
          Inr (map (\<lambda>r. (r, \<lparr>distrib = dname, algorithm = alg, current_z = cz, full_z = fz,
                              shuffled = shuf, direction = dir, seed = sd\<rparr>)) results_df))"

text \<open>
  The local variables of \<open>get_gsea_compressed_matrix\<close> that live across loop
  iterations. A variable that no statement has assigned yet is \<open>None\<close>; reading it
  raises \<open>UnboundLocalError\<close>.
\<close>

record ('row, 'sd) gsea_locals =
  use_df :: "series option"
  use_pos_df :: "series option"
  use_neg_df :: "series option"
  current_z_list :: "('row \<times> 'sd provenance) list list"

text \<open>The arguments of the call that stay fixed over the loops.\<close>

record 'sd gsea_args =
  arg_shuffled :: bool
  arg_seed :: 'sd
  arg_z_dim :: int
  arg_num_perm :: int
  arg_gene_sets :: string

definition attribute :: "string \<Rightarrow> 'a option \<Rightarrow> py_error + 'a" where
  "attribute name v = (case v of None \<Rightarrow> Inl (AttributeError name) | Some x \<Rightarrow> Inr x)"

text \<open>
  The \<open>if/elif\<close> chain on the distribution name: it sets \<open>num_distrib\<close> and assigns
  \<open>use_df\<close>, or \<open>use_pos_df\<close> and \<open>use_neg_df\<close>. Any other name assigns nothing and
  leaves \<open>num_distrib\<close> at 1.
\<close>

definition select_distribution ::
  "latentModel \<Rightarrow> bool list \<Rightarrow> nat \<Rightarrow> string \<Rightarrow> ('row, 'sd) gsea_locals \<Rightarrow>
   py_error + (nat \<times> ('row, 'sd) gsea_locals)" where
  "select_distribution lm subset_algs cz dname loc =
     (if dname = ''full'' then
        (case get_compressed_feature (cells_frame (w_df lm)) subset_algs cz of
           Inl e \<Rightarrow> Inl e
         | Inr f \<Rightarrow> Inr (1, loc\<lparr>use_df := Some f\<rparr>))
      else if dname = ''full_squared'' then
        (case attribute ''sqr_w_df'' (sqr_w_df lm) of
           Inl e \<Rightarrow> Inl e
         | Inr weight_df \<Rightarrow>
             (case get_compressed_feature weight_df subset_algs cz of
                Inl e \<Rightarrow> Inl e
              | Inr f \<Rightarrow> Inr (1, loc\<lparr>use_df := Some f\<rparr>)))
      else if dname = ''pos_neg'' then
        (case attribute ''pos_w_df'' (pos_w_df lm) of
           Inl e \<Rightarrow> Inl e
         | Inr pos \<Rightarrow>
             (case get_compressed_feature pos subset_algs cz of
                Inl e \<Rightarrow> Inl e
              | Inr fp \<Rightarrow>
                  (case attribute ''neg_w_df'' (neg_w_df lm) of
                     Inl e \<Rightarrow> Inl e
                   | Inr neg \<Rightarrow>
                       (case get_compressed_feature neg subset_algs cz of
                          Inl e \<Rightarrow> Inl e
                        | Inr fn \<Rightarrow> Inr (2, loc\<lparr>use_pos_df := Some fp, use_neg_df := Some fn\<rparr>)))))
      else if dname = ''pos_neg_high_weight'' then
        (case attribute ''pos_high_w_df'' (pos_high_w_df lm) of
           Inl e \<Rightarrow> Inl e
         | Inr pos \<Rightarrow>
             (case get_compressed_feature pos subset_algs cz of
                Inl e \<Rightarrow> Inl e
              | Inr fp \<Rightarrow>
                  (case attribute ''neg_high_w_df'' (neg_high_w_df lm) of
                     Inl e \<Rightarrow> Inl e
                   | Inr neg \<Rightarrow>
                       (case get_compressed_feature neg subset_algs cz of
                          Inl e \<Rightarrow> Inl e
                        | Inr fn \<Rightarrow> Inr (2, loc\<lparr>use_pos_df := Some fp, use_neg_df := Some fn\<rparr>)))))
      else Inr (1, loc))"

text \<open>
  One engine call of the loop body and \<open>current_z_list += [results_df]\<close>. In all
  three calls of the source the argument is \<open>use_df=use_df\<close>.
\<close>

definition run_direction ::
  "(series \<Rightarrow> int \<Rightarrow> string \<Rightarrow> py_error + 'row list) \<Rightarrow> 'sd gsea_args \<Rightarrow> string \<Rightarrow> nat \<Rightarrow> string \<Rightarrow> string \<Rightarrow>
   ('row, 'sd) gsea_locals \<Rightarrow> py_error + ('row, 'sd) gsea_locals" where
  "run_direction engine args alg cz dname dir loc =
     (case use_df loc of
        None \<Rightarrow> Inl (UnboundLocalError ''use_df'')
      | Some use \<Rightarrow>
          (case get_gsea_results engine use alg cz (arg_z_dim args) dname (arg_num_perm args)
                  (arg_shuffled args) dir (arg_seed args) (arg_gene_sets args) of
             Inl e \<Rightarrow> Inl e
           | Inr results_df \<Rightarrow> Inr (loc\<lparr>current_z_list := current_z_list loc @ [results_df]\<rparr>)))"

text \<open>\<open>len(s.dropna()) != 0\<close> for a local series variable.\<close>

definition nonempty_side :: "string \<Rightarrow> series option \<Rightarrow> py_error + bool" where
  "nonempty_side name v =
     (case v of
        None \<Rightarrow> Inl (UnboundLocalError name)
      | Some s \<Rightarrow> Inr (length (dropna (s_values s)) \<noteq> 0))"

text \<open>The body of the innermost loop, for one distribution name.\<close>

definition gsea_body ::
  "(series \<Rightarrow> int \<Rightarrow> string \<Rightarrow> py_error + 'row list) \<Rightarrow> latentModel \<Rightarrow> 'sd gsea_args \<Rightarrow> string \<Rightarrow> bool list \<Rightarrow>
   nat \<Rightarrow> string \<Rightarrow> ('row, 'sd) gsea_locals \<Rightarrow> py_error + ('row, 'sd) gsea_locals" where
  "gsea_body engine lm args alg subset_algs cz dname loc =
     (case select_distribution lm subset_algs cz dname loc of
        Inl e \<Rightarrow> Inl e
      | Inr (num_distrib, loc1) \<Rightarrow>
          if num_distrib = 1 then run_direction engine args alg cz dname ''both'' loc1
          else if num_distrib = 2 then
            (case nonempty_side ''use_pos_df'' (use_pos_df loc1) of
               Inl e \<Rightarrow> Inl e
             | Inr has_pos \<Rightarrow>
                 (case (if has_pos then run_direction engine args alg cz dname ''positive'' loc1 else Inr loc1) of
                    Inl e \<Rightarrow> Inl e
                  | Inr loc2 \<Rightarrow>
                      (case nonempty_side ''use_neg_df'' (use_neg_df loc2) of
                         Inl e \<Rightarrow> Inl e
                       | Inr has_neg \<Rightarrow>
                           if has_neg then run_direction engine args alg cz dname ''negative'' loc2
                           else Inr loc2)))
          else Inr loc1)"

text \<open>The three nested \<open>for\<close> loops; an exception leaves them all.\<close>

fun gsea_distrib_loop ::
  "(series \<Rightarrow> int \<Rightarrow> string \<Rightarrow> py_error + 'row list) \<Rightarrow> latentModel \<Rightarrow> 'sd gsea_args \<Rightarrow> string \<Rightarrow> bool list \<Rightarrow>
   nat \<Rightarrow> string list \<Rightarrow> ('row, 'sd) gsea_locals \<Rightarrow> py_error + ('row, 'sd) gsea_locals" where
  "gsea_distrib_loop engine lm args alg subset_algs cz [] loc = Inr loc"
| "gsea_distrib_loop engine lm args alg subset_algs cz (dname # distrib_methods) loc =
     (case gsea_body engine lm args alg subset_algs cz dname loc of
        Inl e \<Rightarrow> Inl e
      | Inr loc' \<Rightarrow> gsea_distrib_loop engine lm args alg subset_algs cz distrib_methods loc')"

fun gsea_z_loop ::
  "(series \<Rightarrow> int \<Rightarrow> string \<Rightarrow> py_error + 'row list) \<Rightarrow> latentModel \<Rightarrow> 'sd gsea_args \<Rightarrow> string \<Rightarrow> bool list \<Rightarrow>
   string list \<Rightarrow> nat list \<Rightarrow> ('row, 'sd) gsea_locals \<Rightarrow> py_error + ('row, 'sd) gsea_locals" where
  "gsea_z_loop engine lm args alg subset_algs distrib_methods [] loc = Inr loc"
| "gsea_z_loop engine lm args alg subset_algs distrib_methods (cz # zs) loc =
     (case gsea_distrib_loop engine lm args alg subset_algs cz distrib_methods loc of
        Inl e \<Rightarrow> Inl e
      | Inr loc' \<Rightarrow> gsea_z_loop engine lm args alg subset_algs distrib_methods zs loc')"

fun gsea_alg_loop ::
  "(series \<Rightarrow> int \<Rightarrow> string \<Rightarrow> py_error + 'row list) \<Rightarrow> latentModel \<Rightarrow> 'sd gsea_args \<Rightarrow> string list \<Rightarrow>
   string list \<Rightarrow> ('row, 'sd) gsea_locals \<Rightarrow> py_error + ('row, 'sd) gsea_locals" where
  "gsea_alg_loop engine lm args distrib_methods [] loc = Inr loc"
| "gsea_alg_loop engine lm args distrib_methods (alg # algorithms) loc =
     (let subset_algs = map (\<lambda>(name, col). str_contains alg name) (df_columns (w_df lm))
      in case z_dim lm of
           None \<Rightarrow> Inl TypeError
         | Some z \<Rightarrow>
             (case gsea_z_loop engine lm args alg subset_algs distrib_methods [0 ..< nat z] loc of
                Inl e \<Rightarrow> Inl e
              | Inr loc' \<Rightarrow> gsea_alg_loop engine lm args distrib_methods algorithms loc'))"

text \<open>\<open>pd.concat(frames)\<close> raises \<open>ValueError\<close> for an empty list.\<close>

definition pd_concat :: "'a list list \<Rightarrow> py_error + 'a list" where
  "pd_concat frames = (if frames = [] then Inl (ValueError ''No objects to concatenate'') else Inr (concat frames))"

definition get_gsea_compressed_matrix ::
  "(series \<Rightarrow> int \<Rightarrow> string \<Rightarrow> py_error + 'row list) \<Rightarrow> latentModel \<Rightarrow> string list \<Rightarrow> string list \<Rightarrow>
   'sd gsea_args \<Rightarrow> py_error + ('row \<times> 'sd provenance) list" where
  "get_gsea_compressed_matrix engine lm algorithms distrib_methods args =
     (case gsea_alg_loop engine lm args distrib_methods algorithms
             \<lparr>use_df = None, use_pos_df = None, use_neg_df = None, current_z_list = []\<rparr> of
        Inl e \<Rightarrow> Inl e
      | Inr loc \<Rightarrow> pd_concat (current_z_list loc))"

subsection \<open>The pipeline command\<close>

text \<open>
  \<open>run_gsea_pipeline_command\<close>. Step 0 builds the dictionary from seed to file name:
  the seed is the second \<open>_\<close>-separated piece of the file's base name, a later file
  with the same seed replaces the earlier one, and the dictionary keeps insertion
  order. The directory listing is the parameter \<open>glob\<close>.
\<close>

definition seed_of_file_name :: "string \<Rightarrow> py_error + string" where
  "seed_of_file_name file_name =
     (let pieces = str_split CHR ''_'' (last (str_split CHR ''/'' file_name))
      in if length pieces \<le> 1 then Inl IndexError else Inr (pieces ! 1))"

fun dict_set :: "('k \<times> 'v) list \<Rightarrow> 'k \<Rightarrow> 'v \<Rightarrow> ('k \<times> 'v) list" where
  "dict_set [] k v = [(k, v)]"
| "dict_set ((k', v') # kvs) k v = (if k' = k then (k, v) # kvs else (k', v') # dict_set kvs k v)"

fun collect_weight_matrices :: "string list \<Rightarrow> (string \<times> string) list \<Rightarrow> py_error + (string \<times> string) list" where
  "collect_weight_matrices [] weight_matrices = Inr weight_matrices"
| "collect_weight_matrices (file_name # files) weight_matrices =
     (case seed_of_file_name file_name of
        Inl e \<Rightarrow> Inl e
      | Inr sd \<Rightarrow> collect_weight_matrices files (dict_set weight_matrices sd file_name))"

text \<open>
  Steps 1 to 4 and the aggregator for one seed. The methods are called with their
  default arguments: multiplier 2.5 and wide format.
\<close>

definition pipeline_seed ::
  "(string \<Rightarrow> (ident list \<times> (string \<times> weight list) list) option) \<Rightarrow> (string \<Rightarrow> gene_row list option) \<Rightarrow>
   (series \<Rightarrow> int \<Rightarrow> string \<Rightarrow> py_error + 'row list) \<Rightarrow> int \<Rightarrow> string \<Rightarrow> int \<Rightarrow> bool \<Rightarrow> string list \<Rightarrow>
   string list \<Rightarrow> bool \<Rightarrow> string \<Rightarrow> string \<Rightarrow> string \<Rightarrow> py_error + ('row \<times> string provenance) list" where
  "pipeline_seed read_table read_url engine z dataset num_perm shuf algorithms distrib_methods translate
     gene_sets sd file =
     (case latentModel_init read_table file (Some z) (Some dataset) None (SeedStr sd) shuf of
        Inl e \<Rightarrow> Inl e
      | Inr lm \<Rightarrow>
          (case load_gene_dict read_url lm default_hash of
             Inl e \<Rightarrow> Inl e
           | Inr lm1 \<Rightarrow>
               (case (if translate then
                        (case translate_gene_ids read_url lm1 (df_index (w_df lm1))
                                ''entrez_gene_id'' ''symbol'' None of
                           (lm', Inl e) \<Rightarrow> Inl e
                         | (lm', Inr translated) \<Rightarrow> Inr (lm'\<lparr>w_df := (w_df lm')\<lparr>df_index := translated\<rparr>\<rparr>))
                      else Inr lm1) of
                  Inl e \<Rightarrow> Inl e
                | Inr lm2 \<Rightarrow>
                    get_gsea_compressed_matrix engine
                      (get_squared_distribution
                         (split_pos_neg_genes (get_high_weight_genes lm2 (5 / 2) False) False))
                      algorithms distrib_methods
                      \<lparr>arg_shuffled = shuf, arg_seed = sd, arg_z_dim = z, arg_num_perm = num_perm,
                       arg_gene_sets = gene_sets\<rparr>)))"

text \<open>The loop over the seeds: \<open>gsea_results_list.append(gsea_results_df)\<close>.\<close>

fun pipeline_seed_loop ::
  "(string \<Rightarrow> (ident list \<times> (string \<times> weight list) list) option) \<Rightarrow> (string \<Rightarrow> gene_row list option) \<Rightarrow>
   (series \<Rightarrow> int \<Rightarrow> string \<Rightarrow> py_error + 'row list) \<Rightarrow> int \<Rightarrow> string \<Rightarrow> int \<Rightarrow> bool \<Rightarrow> string list \<Rightarrow>
   string list \<Rightarrow> bool \<Rightarrow> string \<Rightarrow> (string \<times> string) list \<Rightarrow> ('row \<times> string provenance) list list \<Rightarrow>
   py_error + ('row \<times> string provenance) list list" where
  "pipeline_seed_loop read_table read_url engine z dataset num_perm shuf algorithms distrib_methods translate
     gene_sets [] gsea_results_list = Inr gsea_results_list"
| "pipeline_seed_loop read_table read_url engine z dataset num_perm shuf algorithms distrib_methods translate
     gene_sets ((sd, file) # weight_matrices) gsea_results_list =
     (case pipeline_seed read_table read_url engine z dataset num_perm shuf algorithms distrib_methods
             translate gene_sets sd file of
        Inl e \<Rightarrow> Inl e
      | Inr gsea_results_df \<Rightarrow>
          pipeline_seed_loop read_table read_url engine z dataset num_perm shuf algorithms distrib_methods
            translate gene_sets weight_matrices (gsea_results_list @ [gsea_results_df]))"

text \<open>
  The command: what it writes is the name of the output file and the concatenated
  rows.
\<close>

definition run_gsea_pipeline_command ::
  "(string \<Rightarrow> string list) \<Rightarrow> (string \<Rightarrow> (ident list \<times> (string \<times> weight list) list) option) \<Rightarrow>
   (string \<Rightarrow> gene_row list option) \<Rightarrow> (series \<Rightarrow> int \<Rightarrow> string \<Rightarrow> py_error + 'row list) \<Rightarrow>
   string \<Rightarrow> int \<Rightarrow> string \<Rightarrow> int \<Rightarrow> bool \<Rightarrow> string list \<Rightarrow> string list \<Rightarrow> bool \<Rightarrow> string \<Rightarrow>
   py_error + (string \<times> ('row \<times> string provenance) list)" where
  "run_gsea_pipeline_command glob read_table read_url engine input_weight_dir z dataset num_perm shuf
     algorithms distrib_methods translate gene_sets =
     (case collect_weight_matrices (glob (input_weight_dir @ ''/*_weight_matrix*'')) [] of
        Inl e \<Rightarrow> Inl e
      | Inr weight_matrices \<Rightarrow>
          (case pipeline_seed_loop read_table read_url engine z dataset num_perm shuf algorithms
                  distrib_methods translate gene_sets weight_matrices [] of
             Inl e \<Rightarrow> Inl e
           | Inr gsea_results_list \<Rightarrow>
               (case pd_concat gsea_results_list of
                  Inl e \<Rightarrow> Inl e
                | Inr rows \<Rightarrow>
                    Inr (''results/gsea/gsea_results_'' @ dataset @ ''_zdim_'' @ str_int z @ ''.tsv'', rows))))"

section \<open>Overrepresentation test (scripts/latent.py, run\_overrepresentation)\<close>

text \<open>
  The function receives three Python objects: the candidate list, a dictionary from
  gene-set names to lists, and the background list. Its first statement,
  \<open>background_genes += gene_list\<close>, extends the caller's list object in place, so the
  lists live in an explicit store: an address names a list object, and two arguments
  may be the same object. The dictionary is an association list in insertion order,
  holding the address of each gene-set list.

  \<open>scipy.stats.fisher_exact\<close> is a library routine outside the repository: it is the
  parameter \<open>fisher\<close>, called with the table and returning the pair
  (odds ratio, p-value) or raising. The call in the source passes no \<open>alternative\<close>
  argument, so the routine runs its default, the two-sided test.
\<close>

type_synonym addr = nat
type_synonym 'g store = "addr \<Rightarrow> 'g list"
type_synonym table2x2 = "(int \<times> int) \<times> (int \<times> int)"

text \<open>The table built inside the loop, from the lists as the loop reads them and \<open>G\<close>.\<close>

definition contingency_table :: "'g list \<Rightarrow> 'g list \<Rightarrow> int \<Rightarrow> table2x2" where
  "contingency_table gene_set gene_list G =
     (let gene_set' = set gene_set;
          candidate_set = set gene_list;
          m = int (card (gene_set' \<inter> candidate_set));
          N = int (card candidate_set);
          P = int (card gene_set')
      in ((m + 1, N - m + 1), (P - m + 1, G - N - P + m + 1)))"

text \<open>
  The \<open>for\<close> loop over \<open>gene_set_dict.items()\<close>, with the three accumulator lists
  \<open>pvals\<close>, \<open>odds\<close> and \<open>gene_set_names\<close>. An exception of the test leaves the loop.
\<close>

fun overrep_loop ::
  "(table2x2 \<Rightarrow> py_error + ('o \<times> 'p)) \<Rightarrow> 'g store \<Rightarrow> addr \<Rightarrow> int \<Rightarrow> (string \<times> addr) list \<Rightarrow>
   'p list \<times> 'o list \<times> string list \<Rightarrow> py_error + ('p list \<times> 'o list \<times> string list)" where
  "overrep_loop fisher h gene_list G [] acc = Inr acc"
| "overrep_loop fisher h gene_list G ((gene_set_name, gene_set) # items) (pvals, odds, gene_set_names) =
     (case fisher (contingency_table (h gene_set) (h gene_list) G) of
        Inl e \<Rightarrow> Inl e
      | Inr (oddsratio, pvalue) \<Rightarrow>
          overrep_loop fisher h gene_list G items
            (pvals @ [pvalue], odds @ [oddsratio], gene_set_names @ [gene_set_name]))"

text \<open>
  The whole function: the store after the call, and the exception or the result frame.
  The frame has one row per gene-set name with the columns \<open>pval\<close> and \<open>odds\<close>; it is
  the list of (name, pval, odds). Rebinding \<open>background_genes\<close> to the set changes
  no object.
\<close>

definition run_overrepresentation ::
  "(table2x2 \<Rightarrow> py_error + ('o \<times> 'p)) \<Rightarrow> 'g store \<Rightarrow> addr \<Rightarrow> (string \<times> addr) list \<Rightarrow> addr \<Rightarrow>
   'g store \<times> (py_error + (string \<times> 'p \<times> 'o) list)" where
  "run_overrepresentation fisher h gene_list gene_set_dict background_genes =
     (let h' = h(background_genes := h background_genes @ h gene_list);
          background_set = set (h' background_genes);
          G = int (card background_set)
      in (h',
          case overrep_loop fisher h' gene_list G gene_set_dict ([], [], []) of
            Inl e \<Rightarrow> Inl e
          | Inr (pvals, odds, gene_set_names) \<Rightarrow> Inr (zip gene_set_names (zip pvals odds))))"

subsection \<open>The overrepresentation contract in the specification's words\<close>


text \<open>One output row per gene set, in order; the first failing test aborts the run.\<close>

fun spec_rows ::
  "(table2x2 \<Rightarrow> py_error + ('o \<times> 'p)) \<Rightarrow> (string \<times> table2x2) list \<Rightarrow>
   py_error + (string \<times> 'p \<times> 'o) list" where
  "spec_rows fisher [] = Inr []"
| "spec_rows fisher ((name, t) # rest) =
     (case fisher t of
        Inl e \<Rightarrow> Inl e
      | Inr (oddsratio, pvalue) \<Rightarrow>
          (case spec_rows fisher rest of
             Inl e \<Rightarrow> Inl e
           | Inr rows \<Rightarrow> Inr ((name, pvalue, oddsratio) # rows)))"


subsection \<open>An instance of the exact test, for running examples\<close>

text \<open>
  The statements below hold whatever the library routine returns. To run them on
  concrete data the parameter is instantiated with the textbook two-sided exact test
  in exact rational arithmetic: the odds ratio is \<open>ad / bc\<close>, and the p-value sums the
  hypergeometric probabilities of all tables with the same margins that are at most as
  probable as the observed one. Like the library routine it rejects a negative cell.
\<close>

datatype ratio = Finite rat | Infinite | Undefined

definition table_weight :: "nat \<Rightarrow> nat \<Rightarrow> nat \<Rightarrow> nat \<Rightarrow> nat" where
  "table_weight n1 n2 n k = (n1 choose k) * (n2 choose (n - k))"

definition fisher_two_sided :: "table2x2 \<Rightarrow> py_error + (ratio \<times> rat)" where
  "fisher_two_sided t =
     (case t of ((a, b), (c, d)) \<Rightarrow>
        if a < 0 \<or> b < 0 \<or> c < 0 \<or> d < 0 then Inl (ValueError ''All values in table must be nonnegative.'')
        else if a + b = 0 \<or> c + d = 0 \<or> a + c = 0 \<or> b + d = 0 then Inr (Undefined, 1)
        else
          let n1 = nat (a + b); n2 = nat (c + d); n = nat (a + c);
              observed = table_weight n1 n2 n (nat a);
              extreme = filter (\<lambda>k. table_weight n1 n2 n k \<le> observed) [0 ..< Suc (min n1 n)];
              pvalue = of_nat (sum_list (map (table_weight n1 n2 n) extreme)) / of_nat ((n1 + n2) choose n)
          in Inr (if 0 < c \<and> 0 < b then Finite (of_int (a * d) / of_int (c * b)) else Infinite, pvalue))"

text \<open>Example data: candidates at address 0, background at 1, one gene set at 2.\<close>

definition example_store :: "string store" where
  "example_store =
     (\<lambda>a. []) (0 := [''A'', ''B'', ''C''], 1 := [''A'', ''B'', ''C'', ''D'', ''E''], 2 := [''A'', ''B''])"

section \<open>Contracts in the specification's words, and example data\<close>



text \<open>
  The translation of one identifier in the specification's words: the value in the
  target column of the row whose source column holds the identifier (the last such
  row, should there be several), and nothing when no row holds it.
\<close>

definition spec_translate :: "gene_row list \<Rightarrow> string \<Rightarrow> string \<Rightarrow> ident \<Rightarrow> label" where
  "spec_translate df from_ns to_ns i =
     map_option (\<lambda>g. gene_cell g to_ns) (find (\<lambda>g. gene_cell g from_ns = i) (rev df))"

text \<open>
  A weight file with two genes and three features, one of them spelled in upper
  case and one with a missing weight, and the reader that knows this file only.
\<close>

definition example_file :: "ident list \<times> (string \<times> weight list) list" where
  "example_file =
     ([IntId 1, IntId 2],
      [(''PCA_0'', [Some 4, Some 5]), (''pca_0'', [Some 1, Some (- 2)]), (''pca_1'', [Some 3, None])])"

definition example_read_table :: "string \<Rightarrow> (ident list \<times> (string \<times> weight list) list) option" where
  "example_read_table f = (if f = ''w/x_123_weight_matrix.tsv'' then Some example_file else None)"


definition blank_model :: "weight frame \<Rightarrow> int \<Rightarrow> latentModel" where
  "blank_model w z =
     \<lparr>filename = ''w'', w_df = w, z_dim = Some z, dataset_name = ''X'', weight_seed = 123,
      shuffled_true = False, is_gene_dictionary_loaded = False, algorithm_name = None,
      gene_dictionary_df = None, pos_high_w_df = None, neg_high_w_df = None,
      high_weight_std_cutoff = None, pos_w_df = None, neg_w_df = None, sqr_w_df = None\<rparr>"


text \<open>
  A download that knows the example gene table under the default hash only, a model
  that has not loaded the dictionary, and one that has.
\<close>

definition example_read_url :: "string \<Rightarrow> gene_row list option" where
  "example_read_url u = (if u = gene_dict_url default_hash then Some example_genes else None)"

definition small_frame :: "weight frame" where
  "small_frame =
     \<lparr>df_index = [Some (StrId ''1''), Some (StrId ''2'')],
      df_columns = [(''pca_0'', [Some 1, Some (- 2)]), (''pca_1'', [Some 3, None])]\<rparr>"

definition fresh_model :: latentModel where
  "fresh_model = blank_model small_frame 2"

definition loaded_model :: latentModel where
  "loaded_model =
     fresh_model\<lparr>gene_dictionary_df := Some (protein_coding example_genes), is_gene_dictionary_loaded := True\<rparr>"

text \<open>
  Two stand-ins for the enrichment engine: one returns the ranked scores it was given
  as its only row, so that a result shows what was passed; the other raises when a
  score is missing and otherwise reports the feature's name.
\<close>

definition echo_engine :: "series \<Rightarrow> int \<Rightarrow> string \<Rightarrow> py_error + series list" where
  "echo_engine gene_score_df permutation_num gene_sets = Inr [gene_score_df]"

definition strict_engine :: "series \<Rightarrow> int \<Rightarrow> string \<Rightarrow> py_error + string list" where
  "strict_engine gene_score_df permutation_num gene_sets =
     (if NA \<in> set (s_values gene_score_df) then Inl (ValueError ''missing score'')
      else Inr [s_name gene_score_df])"

definition example_args :: "string gsea_args" where
  "example_args =
     \<lparr>arg_shuffled = False, arg_seed = ''123'', arg_z_dim = 2, arg_num_perm = 15,
      arg_gene_sets = ''KEGG_2016''\<rparr>"

text \<open>The model of the small frame with one latent dimension, after the three view methods.\<close>

definition views_model :: latentModel where
  "views_model =
     get_squared_distribution
       (split_pos_neg_genes (get_high_weight_genes (blank_model small_frame 1) (5 / 2) False) False)"

definition example_glob :: "string \<Rightarrow> string list" where
  "example_glob pat = (if pat = ''w/*_weight_matrix*'' then [''w/x_123_weight_matrix.tsv''] else [])"

text \<open>
  The local variables of the aggregator before the first combination, and after the
  combination (\<open>pca\<close>, 0, \<open>full\<close>) of the small frame has been processed with the
  strict engine; the scores of the second feature, one of them missing.
\<close>

definition start_locals :: "(string, string) gsea_locals" where
  "start_locals = \<lparr>use_df = None, use_pos_df = None, use_neg_df = None, current_z_list = []\<rparr>"

definition after_first :: "(string, string) gsea_locals" where
  "after_first =
     \<lparr>use_df = Some \<lparr>s_name = ''pca_0'', s_index = [Some (StrId ''1''), Some (StrId ''2'')],
                       s_values = [Num 1, Num (- 2)]\<rparr>,
      use_pos_df = None, use_neg_df = None,
      current_z_list = [[(''pca_0'', \<lparr>distrib = ''full'', algorithm = ''pca'', current_z = 0, full_z = 2,
                            shuffled = False, direction = ''both'', seed = ''123''\<rparr>)]]\<rparr>"

definition missing_scores :: series where
  "missing_scores =
     \<lparr>s_name = ''pca_1'', s_index = [Some (StrId ''1''), Some (StrId ''2'')], s_values = [Num 3, NA]\<rparr>"

section \<open>Properties of the weight matrix loader and the distribution views\<close>















section \<open>Properties of the gene identifier translation\<close>

lemma map_of_find:
  "map_of (map (\<lambda>x. (f x, g x)) xs) i = map_option g (find (\<lambda>x. f x = i) xs)"
  by (induction xs) auto

lemma find_Some_member: "find P xs = Some x \<Longrightarrow> P x \<and> x \<in> set xs"
  by (induction xs) (auto split: if_splits)

lemma gene_mapper_spec:
  "py_dict (zip (gene_column df from_ns) (gene_column df to_ns)) i = spec_translate df from_ns to_ns i"
proof -
  have c: "\<And>ns. gene_column df ns = map (\<lambda>g. gene_cell g ns) df"
    by (simp add: gene_column_def gene_cell_def)
  have "rev (zip (gene_column df from_ns) (gene_column df to_ns)) =
        map (\<lambda>g. (gene_cell g from_ns, gene_cell g to_ns)) (rev df)"
    by (simp add: c zip_map_map zip_same_conv_map rev_map comp_def)
  then show ?thesis
    by (simp add: py_dict_def spec_translate_def map_of_find)
qed

lemma translate_invalid_iff:
  "snd (translate_gene_ids read_url lm gene_list from_ns to_ns hash_kw) = Inl invalid_namespace \<longleftrightarrow>
     from_ns \<notin> {''entrez_gene_id'', ''symbol''} \<or> to_ns \<notin> {''entrez_gene_id'', ''symbol''}"
  by (auto simp: translate_gene_ids_def load_gene_dict_def invalid_namespace_def Let_def
      split: option.splits sum.splits if_splits)

lemma translate_invalid_state:
  "from_ns \<notin> {''entrez_gene_id'', ''symbol''} \<or> to_ns \<notin> {''entrez_gene_id'', ''symbol''} \<Longrightarrow>
   translate_gene_ids read_url lm gene_list from_ns to_ns hash_kw = (lm, Inl invalid_namespace)"
  by (auto simp: translate_gene_ids_def Let_def)

lemma translate_loaded:
  "from_ns \<in> {''entrez_gene_id'', ''symbol''} \<Longrightarrow> to_ns \<in> {''entrez_gene_id'', ''symbol''} \<Longrightarrow>
   is_gene_dictionary_loaded lm \<Longrightarrow> gene_dictionary_df lm = Some df \<Longrightarrow>
   translate_gene_ids read_url lm gene_list from_ns to_ns hash_kw =
     (lm, Inr (map (\<lambda>l. case l of None \<Rightarrow> None | Some i \<Rightarrow> spec_translate df from_ns to_ns i) gene_list))"
  by (simp add: translate_gene_ids_def Let_def gene_mapper_spec cong: option.case_cong)

lemma translate_unloaded:
  "from_ns \<in> {''entrez_gene_id'', ''symbol''} \<Longrightarrow> to_ns \<in> {''entrez_gene_id'', ''symbol''} \<Longrightarrow>
   \<not> is_gene_dictionary_loaded lm \<Longrightarrow>
   read_url (gene_dict_url (case hash_kw of None \<Rightarrow> default_hash | Some h \<Rightarrow> h)) = Some rows \<Longrightarrow>
   translate_gene_ids read_url lm gene_list from_ns to_ns hash_kw =
     (lm\<lparr>gene_dictionary_df := Some (protein_coding rows), is_gene_dictionary_loaded := True\<rparr>,
      Inr (map (\<lambda>l. case l of None \<Rightarrow> None | Some i \<Rightarrow> spec_translate (protein_coding rows) from_ns to_ns i)
               gene_list))"
  by (simp add: translate_gene_ids_def Let_def load_gene_dict_def gene_mapper_spec cong: option.case_cong)

lemma spec_translate_absent:
  "i \<notin> set (gene_column df from_ns) \<Longrightarrow> spec_translate df from_ns to_ns i = None"
  by (auto simp: spec_translate_def gene_column_def gene_cell_def find_None_iff split: if_splits)

lemma spec_translate_present:
  "i \<in> set (gene_column df from_ns) \<Longrightarrow>
   \<exists>g. g \<in> set df \<and> gene_cell g from_ns = i \<and> spec_translate df from_ns to_ns i = Some (gene_cell g to_ns)"
proof -
  assume "i \<in> set (gene_column df from_ns)"
  then obtain g0 where "g0 \<in> set (rev df)" "gene_cell g0 from_ns = i"
    by (auto simp: gene_column_def gene_cell_def split: if_splits)
  then have "find (\<lambda>g. gene_cell g from_ns = i) (rev df) \<noteq> None"
    by (auto simp: find_None_iff)
  then obtain g where f: "find (\<lambda>g. gene_cell g from_ns = i) (rev df) = Some g"
    by auto
  then have "g \<in> set df" "gene_cell g from_ns = i"
    by (auto dest: find_Some_member)
  with f show ?thesis
    by (auto simp: spec_translate_def)
qed

text \<open>
  C7. \<open>translate_gene_ids\<close> raises the invalid-namespace error exactly when the source
  or the target namespace is not one of \<open>entrez_gene_id\<close> and \<open>symbol\<close>. With both
  namespaces valid and the dictionary at hand (already loaded, or downloaded now), no
  error is raised: every entry of the list is translated on its own, to the missing
  marker when the dictionary's source column does not hold it and otherwise to the
  target cell of a dictionary row that holds it.
\<close>

theorem translate_gene_ids_contract:
  "(snd (translate_gene_ids read_url lm gene_list from_ns to_ns hash_kw) = Inl invalid_namespace \<longleftrightarrow>
      from_ns \<notin> {''entrez_gene_id'', ''symbol''} \<or> to_ns \<notin> {''entrez_gene_id'', ''symbol''}) \<and>
   (from_ns \<in> {''entrez_gene_id'', ''symbol''} \<and> to_ns \<in> {''entrez_gene_id'', ''symbol''} \<and>
    is_gene_dictionary_loaded lm \<and> gene_dictionary_df lm = Some df \<longrightarrow>
      snd (translate_gene_ids read_url lm gene_list from_ns to_ns hash_kw) =
        Inr (map (\<lambda>l. case l of None \<Rightarrow> None | Some i \<Rightarrow> spec_translate df from_ns to_ns i) gene_list)) \<and>
   (from_ns \<in> {''entrez_gene_id'', ''symbol''} \<and> to_ns \<in> {''entrez_gene_id'', ''symbol''} \<and>
    \<not> is_gene_dictionary_loaded lm \<and>
    read_url (gene_dict_url (case hash_kw of None \<Rightarrow> default_hash | Some h \<Rightarrow> h)) = Some rows \<longrightarrow>
      snd (translate_gene_ids read_url lm gene_list from_ns to_ns hash_kw) =
        Inr (map (\<lambda>l. case l of None \<Rightarrow> None | Some i \<Rightarrow> spec_translate (protein_coding rows) from_ns to_ns i)
                 gene_list)) \<and>
   (i \<notin> set (gene_column df from_ns) \<longrightarrow> spec_translate df from_ns to_ns i = None) \<and>
   (i \<in> set (gene_column df from_ns) \<longrightarrow>
      (\<exists>g. g \<in> set df \<and> gene_cell g from_ns = i \<and>
           spec_translate df from_ns to_ns i = Some (gene_cell g to_ns)))"
proof (intro conjI impI)
  show "snd (translate_gene_ids read_url lm gene_list from_ns to_ns hash_kw) = Inl invalid_namespace \<longleftrightarrow>
      from_ns \<notin> {''entrez_gene_id'', ''symbol''} \<or> to_ns \<notin> {''entrez_gene_id'', ''symbol''}"
    by (rule translate_invalid_iff)
next
  assume "from_ns \<in> {''entrez_gene_id'', ''symbol''} \<and> to_ns \<in> {''entrez_gene_id'', ''symbol''} \<and>
    is_gene_dictionary_loaded lm \<and> gene_dictionary_df lm = Some df"
  then show "snd (translate_gene_ids read_url lm gene_list from_ns to_ns hash_kw) =
        Inr (map (\<lambda>l. case l of None \<Rightarrow> None | Some i \<Rightarrow> spec_translate df from_ns to_ns i) gene_list)"
    by (simp add: translate_loaded)
next
  assume "from_ns \<in> {''entrez_gene_id'', ''symbol''} \<and> to_ns \<in> {''entrez_gene_id'', ''symbol''} \<and>
    \<not> is_gene_dictionary_loaded lm \<and>
    read_url (gene_dict_url (case hash_kw of None \<Rightarrow> default_hash | Some h \<Rightarrow> h)) = Some rows"
  then show "snd (translate_gene_ids read_url lm gene_list from_ns to_ns hash_kw) =
        Inr (map (\<lambda>l. case l of None \<Rightarrow> None | Some i \<Rightarrow> spec_translate (protein_coding rows) from_ns to_ns i)
                 gene_list)"
    by (simp add: translate_unloaded)
next
  assume "i \<notin> set (gene_column df from_ns)"
  then show "spec_translate df from_ns to_ns i = None"
    by (rule spec_translate_absent)
next
  assume "i \<in> set (gene_column df from_ns)"
  then show "\<exists>g. g \<in> set df \<and> gene_cell g from_ns = i \<and>
           spec_translate df from_ns to_ns i = Some (gene_cell g to_ns)"
    by (rule spec_translate_present)
qed

theorem translate_gene_ids_contract_witness:
  "''ensembl'' \<notin> {''entrez_gene_id'', ''symbol''} \<and>
   snd (translate_gene_ids example_read_url loaded_model [Some (StrId ''A'')] ''ensembl'' ''symbol'' None) =
     Inl invalid_namespace \<and>
   ''symbol'' \<in> {''entrez_gene_id'', ''symbol''} \<and>
   ''entrez_gene_id'' \<in> {''entrez_gene_id'', ''symbol''} \<and>
   is_gene_dictionary_loaded loaded_model \<and>
   gene_dictionary_df loaded_model = Some [gene_A, gene_B, gene_C, gene_E] \<and>
   snd (translate_gene_ids example_read_url loaded_model [Some (StrId ''A''), Some (StrId ''Q''), None]
          ''symbol'' ''entrez_gene_id'' None) =
     Inr [Some (IntId 1), None, None] \<and>
   \<not> is_gene_dictionary_loaded fresh_model \<and>
   example_read_url (gene_dict_url default_hash) = Some example_genes \<and>
   snd (translate_gene_ids example_read_url fresh_model [Some (IntId 2), Some (IntId 4)]
          ''entrez_gene_id'' ''symbol'' None) =
     Inr [Some (StrId ''B''), None] \<and>
   StrId ''Q'' \<notin> set (gene_column [gene_A, gene_B, gene_C, gene_E] ''symbol'') \<and>
   spec_translate [gene_A, gene_B, gene_C, gene_E] ''symbol'' ''entrez_gene_id'' (StrId ''Q'') = None \<and>
   StrId ''A'' \<in> set (gene_column [gene_A, gene_B, gene_C, gene_E] ''symbol'') \<and>
   spec_translate [gene_A, gene_B, gene_C, gene_E] ''symbol'' ''entrez_gene_id'' (StrId ''A'') = Some (IntId 1)"
proof -
  let ?df = "[gene_A, gene_B, gene_C, gene_E]"
  have pc: "protein_coding example_genes = ?df"
    by (simp add: protein_coding_def example_genes_def gene_A_def gene_B_def gene_C_def gene_D_def
        gene_E_def)
  have cells:
    "\<And>ns. gene_cell gene_A ns = (if ns = ''entrez_gene_id'' then IntId 1 else StrId ''A'')"
    "\<And>ns. gene_cell gene_B ns = (if ns = ''entrez_gene_id'' then IntId 2 else StrId ''B'')"
    "\<And>ns. gene_cell gene_C ns = (if ns = ''entrez_gene_id'' then IntId 3 else StrId ''C'')"
    "\<And>ns. gene_cell gene_E ns = (if ns = ''entrez_gene_id'' then IntId 5 else StrId ''E'')"
    by (simp_all add: gene_cell_def gene_A_def gene_B_def gene_C_def gene_E_def)
  have col: "gene_column ?df ''symbol'' = [StrId ''A'', StrId ''B'', StrId ''C'', StrId ''E'']"
    by (simp add: gene_column_def cells)
  have h1: "''ensembl'' \<notin> {''entrez_gene_id'', ''symbol''}"
    by simp
  have h2: "''symbol'' \<in> {''entrez_gene_id'', ''symbol''}" "''entrez_gene_id'' \<in> {''entrez_gene_id'', ''symbol''}"
    by simp_all
  have h3: "is_gene_dictionary_loaded loaded_model" "gene_dictionary_df loaded_model = Some ?df"
    by (simp_all add: loaded_model_def pc)
  have h4: "\<not> is_gene_dictionary_loaded fresh_model"
    by (simp add: fresh_model_def blank_model_def)
  have h5: "example_read_url (gene_dict_url default_hash) = Some example_genes"
    by (simp add: example_read_url_def)
  have h6: "StrId ''Q'' \<notin> set (gene_column ?df ''symbol'')" "StrId ''A'' \<in> set (gene_column ?df ''symbol'')"
    by (simp_all add: col)
  have c1: "snd (translate_gene_ids example_read_url loaded_model [Some (StrId ''A'')] ''ensembl'' ''symbol'' None) =
              Inl invalid_namespace"
    using translate_gene_ids_contract [where read_url = example_read_url and lm = loaded_model
        and gene_list = "[Some (StrId ''A'')]" and from_ns = "''ensembl''" and to_ns = "''symbol''"
        and hash_kw = None] h1
    by blast
  have c2: "snd (translate_gene_ids example_read_url loaded_model [Some (StrId ''A''), Some (StrId ''Q''), None]
              ''symbol'' ''entrez_gene_id'' None) =
            Inr (map (\<lambda>l. case l of None \<Rightarrow> None
                           | Some i \<Rightarrow> spec_translate ?df ''symbol'' ''entrez_gene_id'' i)
                     [Some (StrId ''A''), Some (StrId ''Q''), None])"
    using translate_gene_ids_contract [where read_url = example_read_url and lm = loaded_model
        and gene_list = "[Some (StrId ''A''), Some (StrId ''Q''), None]" and from_ns = "''symbol''"
        and to_ns = "''entrez_gene_id''" and hash_kw = None and df = ?df] h2 h3
    by blast
  have c3: "snd (translate_gene_ids example_read_url fresh_model [Some (IntId 2), Some (IntId 4)]
              ''entrez_gene_id'' ''symbol'' None) =
            Inr (map (\<lambda>l. case l of None \<Rightarrow> None
                           | Some i \<Rightarrow> spec_translate (protein_coding example_genes) ''entrez_gene_id'' ''symbol'' i)
                     [Some (IntId 2), Some (IntId 4)])"
    using translate_gene_ids_contract [where read_url = example_read_url and lm = fresh_model
        and gene_list = "[Some (IntId 2), Some (IntId 4)]" and from_ns = "''entrez_gene_id''"
        and to_ns = "''symbol''" and hash_kw = None and rows = example_genes] h2 h4 h5
    by simp
  have c4: "spec_translate ?df ''symbol'' ''entrez_gene_id'' (StrId ''Q'') = None"
    using translate_gene_ids_contract [where from_ns = "''symbol''" and to_ns = "''entrez_gene_id''"
        and i = "StrId ''Q''" and df = ?df] h6
    by blast
  have v: "spec_translate ?df ''symbol'' ''entrez_gene_id'' (StrId ''A'') = Some (IntId 1)"
          "spec_translate ?df ''entrez_gene_id'' ''symbol'' (IntId 2) = Some (StrId ''B'')"
          "spec_translate ?df ''entrez_gene_id'' ''symbol'' (IntId 4) = None"
    by (simp_all add: spec_translate_def cells)
  from c2 have c2': "snd (translate_gene_ids example_read_url loaded_model
              [Some (StrId ''A''), Some (StrId ''Q''), None] ''symbol'' ''entrez_gene_id'' None) =
            Inr [Some (IntId 1), None, None]"
    by (simp add: v c4)
  from c3 have c3': "snd (translate_gene_ids example_read_url fresh_model [Some (IntId 2), Some (IntId 4)]
              ''entrez_gene_id'' ''symbol'' None) = Inr [Some (StrId ''B''), None]"
    by (simp add: pc v)
  from h1 c1 h2 h3 c2' h4 h5 c3' h6 c4 v(1) show ?thesis
    by (intro conjI)
qed

text \<open>
  C10. If \<open>translate_gene_ids\<close> raises the invalid-namespace error, the object is
  unchanged: \<open>is_gene_dictionary_loaded\<close> and the gene dictionary keep their prior
  values. The outcome is the same whatever the download would deliver, since the
  namespace check comes before the lazy load and the download is never consulted.
\<close>

theorem invalid_namespace_leaves_state:
  "snd (translate_gene_ids read_url lm gene_list from_ns to_ns hash_kw) = Inl invalid_namespace \<longrightarrow>
     fst (translate_gene_ids read_url lm gene_list from_ns to_ns hash_kw) = lm \<and>
     is_gene_dictionary_loaded (fst (translate_gene_ids read_url lm gene_list from_ns to_ns hash_kw)) =
       is_gene_dictionary_loaded lm \<and>
     gene_dictionary_df (fst (translate_gene_ids read_url lm gene_list from_ns to_ns hash_kw)) =
       gene_dictionary_df lm \<and>
     (\<forall>other_url. translate_gene_ids other_url lm gene_list from_ns to_ns hash_kw = (lm, Inl invalid_namespace))"
proof
  assume "snd (translate_gene_ids read_url lm gene_list from_ns to_ns hash_kw) = Inl invalid_namespace"
  then have "from_ns \<notin> {''entrez_gene_id'', ''symbol''} \<or> to_ns \<notin> {''entrez_gene_id'', ''symbol''}"
    by (simp only: translate_invalid_iff)
  then have "\<And>other_url. translate_gene_ids other_url lm gene_list from_ns to_ns hash_kw = (lm, Inl invalid_namespace)"
    by (rule translate_invalid_state)
  then show "fst (translate_gene_ids read_url lm gene_list from_ns to_ns hash_kw) = lm \<and>
     is_gene_dictionary_loaded (fst (translate_gene_ids read_url lm gene_list from_ns to_ns hash_kw)) =
       is_gene_dictionary_loaded lm \<and>
     gene_dictionary_df (fst (translate_gene_ids read_url lm gene_list from_ns to_ns hash_kw)) =
       gene_dictionary_df lm \<and>
     (\<forall>other_url. translate_gene_ids other_url lm gene_list from_ns to_ns hash_kw = (lm, Inl invalid_namespace))"
    by simp
qed

theorem invalid_namespace_leaves_state_witness:
  "snd (translate_gene_ids example_read_url fresh_model [Some (IntId 2)] ''entrez_gene_id'' ''ensembl'' None) =
     Inl invalid_namespace \<and>
   fst (translate_gene_ids example_read_url fresh_model [Some (IntId 2)] ''entrez_gene_id'' ''ensembl'' None) =
     fresh_model \<and>
   is_gene_dictionary_loaded
     (fst (translate_gene_ids example_read_url fresh_model [Some (IntId 2)] ''entrez_gene_id'' ''ensembl'' None)) = False \<and>
   gene_dictionary_df
     (fst (translate_gene_ids example_read_url fresh_model [Some (IntId 2)] ''entrez_gene_id'' ''ensembl'' None)) = None \<and>
   is_gene_dictionary_loaded
     (fst (translate_gene_ids example_read_url fresh_model [Some (IntId 2)] ''entrez_gene_id'' ''symbol'' None)) = True"
proof -
  have h: "snd (translate_gene_ids example_read_url fresh_model [Some (IntId 2)] ''entrez_gene_id'' ''ensembl'' None) =
             Inl invalid_namespace"
    by (simp add: translate_gene_ids_def Let_def)
  have f: "is_gene_dictionary_loaded fresh_model = False" "gene_dictionary_df fresh_model = None"
    by (simp_all add: fresh_model_def blank_model_def)
  have l: "is_gene_dictionary_loaded
     (fst (translate_gene_ids example_read_url fresh_model [Some (IntId 2)] ''entrez_gene_id'' ''symbol'' None)) = True"
    by (simp add: translate_gene_ids_def Let_def f load_gene_dict_def example_read_url_def)
  from h invalid_namespace_leaves_state [of example_read_url fresh_model "[Some (IntId 2)]"
      "''entrez_gene_id''" "''ensembl''" None]
  have "fst (translate_gene_ids example_read_url fresh_model [Some (IntId 2)] ''entrez_gene_id'' ''ensembl'' None) =
     fresh_model \<and>
     is_gene_dictionary_loaded
       (fst (translate_gene_ids example_read_url fresh_model [Some (IntId 2)] ''entrez_gene_id'' ''ensembl'' None)) =
       is_gene_dictionary_loaded fresh_model \<and>
     gene_dictionary_df
       (fst (translate_gene_ids example_read_url fresh_model [Some (IntId 2)] ''entrez_gene_id'' ''ensembl'' None)) =
       gene_dictionary_df fresh_model"
    by blast
  with h f l show ?thesis by simp
qed

section \<open>Properties of the aggregator and the pipeline command\<close>

lemma views_keep_weights:
  "w_df (get_high_weight_genes lm k b) = w_df lm"
  "z_dim (get_high_weight_genes lm k b) = z_dim lm"
  "w_df (split_pos_neg_genes lm b) = w_df lm"
  "z_dim (split_pos_neg_genes lm b) = z_dim lm"
  "w_df (get_squared_distribution lm) = w_df lm"
  "z_dim (get_squared_distribution lm) = z_dim lm"
  by (simp_all add: get_high_weight_genes_def split_pos_neg_genes_def get_squared_distribution_def Let_def)

lemma views_model_weights: "w_df views_model = small_frame" "z_dim views_model = Some 1"
  by (simp_all add: views_model_def views_keep_weights blank_model_def)

lemma views_model_pos:
  "pos_w_df views_model =
     Some \<lparr>df_index = [Some (StrId ''1''), Some (StrId ''2'')],
           df_columns = [(''pca_0'', [Num 1, NA]), (''pca_1'', [Num 3, NA])]\<rparr>"
  by (simp add: views_model_def get_squared_distribution_def split_pos_neg_genes_def
      get_high_weight_genes_def Let_def blank_model_def small_frame_def)

lemma views_model_neg:
  "neg_w_df views_model =
     Some \<lparr>df_index = [Some (StrId ''1''), Some (StrId ''2'')],
           df_columns = [(''pca_0'', [NA, Num (- 2)]), (''pca_1'', [NA, NA])]\<rparr>"
  by (simp add: views_model_def get_squared_distribution_def split_pos_neg_genes_def
      get_high_weight_genes_def Let_def blank_model_def small_frame_def)

lemma small_frame_mask:
  "map (\<lambda>(name, col). str_contains ''pca'' name) (df_columns small_frame) = [True, True]"
  by (simp add: small_frame_def)

lemma small_frame_cells:
  "cells_frame small_frame =
     \<lparr>df_index = [Some (StrId ''1''), Some (StrId ''2'')],
      df_columns = [(''pca_0'', [Num 1, Num (- 2)]), (''pca_1'', [Num 3, NA])]\<rparr>"
  by (simp add: cells_frame_def small_frame_def weight_cell_def)

text \<open>
  C1, evaluated on the two-gene matrix with the feature \<open>pca_0 = (1, -2)\<close>. After a
  \<open>full\<close> combination, the \<open>pos_neg\<close> combination calls the engine for the directions
  \<open>positive\<close> and \<open>negative\<close> with the full view \<open>(1, -2)\<close> that \<open>use_df\<close> still holds,
  not with the positive-tail view \<open>(1, NaN)\<close> nor the negative-tail view
  \<open>(NaN, -2)\<close> that the same iteration has just computed. With \<open>pos_neg\<close> as the only
  distribution, \<open>use_df\<close> is unbound and the run ends in \<open>UnboundLocalError\<close> before
  any engine call.
\<close>

theorem split_views_receive_use_df:
  "get_gsea_compressed_matrix echo_engine views_model [''pca''] [''full'', ''pos_neg''] example_args =
     Inr [(\<lparr>s_name = ''pca_0'', s_index = [Some (StrId ''1''), Some (StrId ''2'')],
             s_values = [Num 1, Num (- 2)]\<rparr>,
           \<lparr>distrib = ''full'', algorithm = ''pca'', current_z = 0, full_z = 2, shuffled = False,
            direction = ''both'', seed = ''123''\<rparr>),
          (\<lparr>s_name = ''pca_0'', s_index = [Some (StrId ''1''), Some (StrId ''2'')],
             s_values = [Num 1, Num (- 2)]\<rparr>,
           \<lparr>distrib = ''pos_neg'', algorithm = ''pca'', current_z = 0, full_z = 2, shuffled = False,
            direction = ''positive'', seed = ''123''\<rparr>),
          (\<lparr>s_name = ''pca_0'', s_index = [Some (StrId ''1''), Some (StrId ''2'')],
             s_values = [Num 1, Num (- 2)]\<rparr>,
           \<lparr>distrib = ''pos_neg'', algorithm = ''pca'', current_z = 0, full_z = 2, shuffled = False,
            direction = ''negative'', seed = ''123''\<rparr>)] \<and>
   map_option (\<lambda>pos. get_compressed_feature pos [True, True] 0) (pos_w_df views_model) =
     Some (Inr \<lparr>s_name = ''pca_0'', s_index = [Some (StrId ''1''), Some (StrId ''2'')],
                s_values = [Num 1, NA]\<rparr>) \<and>
   map_option (\<lambda>neg. get_compressed_feature neg [True, True] 0) (neg_w_df views_model) =
     Some (Inr \<lparr>s_name = ''pca_0'', s_index = [Some (StrId ''1''), Some (StrId ''2'')],
                s_values = [NA, Num (- 2)]\<rparr>) \<and>
   get_gsea_compressed_matrix echo_engine views_model [''pca''] [''pos_neg''] example_args =
     Inl (UnboundLocalError ''use_df'')"
proof (intro conjI)
  show "get_gsea_compressed_matrix echo_engine views_model [''pca''] [''full'', ''pos_neg''] example_args =
     Inr [(\<lparr>s_name = ''pca_0'', s_index = [Some (StrId ''1''), Some (StrId ''2'')],
             s_values = [Num 1, Num (- 2)]\<rparr>,
           \<lparr>distrib = ''full'', algorithm = ''pca'', current_z = 0, full_z = 2, shuffled = False,
            direction = ''both'', seed = ''123''\<rparr>),
          (\<lparr>s_name = ''pca_0'', s_index = [Some (StrId ''1''), Some (StrId ''2'')],
             s_values = [Num 1, Num (- 2)]\<rparr>,
           \<lparr>distrib = ''pos_neg'', algorithm = ''pca'', current_z = 0, full_z = 2, shuffled = False,
            direction = ''positive'', seed = ''123''\<rparr>),
          (\<lparr>s_name = ''pca_0'', s_index = [Some (StrId ''1''), Some (StrId ''2'')],
             s_values = [Num 1, Num (- 2)]\<rparr>,
           \<lparr>distrib = ''pos_neg'', algorithm = ''pca'', current_z = 0, full_z = 2, shuffled = False,
            direction = ''negative'', seed = ''123''\<rparr>)]"
    by (simp add: get_gsea_compressed_matrix_def Let_def views_model_weights small_frame_mask
        small_frame_cells gsea_body_def select_distribution_def attribute_def views_model_pos
        views_model_neg get_compressed_feature_def loc_columns_def nonempty_side_def dropna_def
        run_direction_def get_gsea_results_def echo_engine_def example_args_def pd_concat_def)
  show "map_option (\<lambda>pos. get_compressed_feature pos [True, True] 0) (pos_w_df views_model) =
     Some (Inr \<lparr>s_name = ''pca_0'', s_index = [Some (StrId ''1''), Some (StrId ''2'')],
                s_values = [Num 1, NA]\<rparr>)"
    by (simp add: views_model_pos get_compressed_feature_def loc_columns_def)
  show "map_option (\<lambda>neg. get_compressed_feature neg [True, True] 0) (neg_w_df views_model) =
     Some (Inr \<lparr>s_name = ''pca_0'', s_index = [Some (StrId ''1''), Some (StrId ''2'')],
                s_values = [NA, Num (- 2)]\<rparr>)"
    by (simp add: views_model_neg get_compressed_feature_def loc_columns_def)
  show "get_gsea_compressed_matrix echo_engine views_model [''pca''] [''pos_neg''] example_args =
     Inl (UnboundLocalError ''use_df'')"
    by (simp add: get_gsea_compressed_matrix_def Let_def views_model_weights small_frame_mask
        gsea_body_def select_distribution_def attribute_def views_model_pos views_model_neg
        get_compressed_feature_def loc_columns_def nonempty_side_def dropna_def run_direction_def)
qed

lemma gsea_distrib_loop_append:
  "gsea_distrib_loop engine lm args alg m cz (ds1 @ ds2) loc =
     (case gsea_distrib_loop engine lm args alg m cz ds1 loc of
        Inl e \<Rightarrow> Inl e
      | Inr loc' \<Rightarrow> gsea_distrib_loop engine lm args alg m cz ds2 loc')"
  by (induction ds1 arbitrary: loc) (auto split: sum.splits)

lemma gsea_z_loop_append:
  "gsea_z_loop engine lm args alg m ds (zs1 @ zs2) loc =
     (case gsea_z_loop engine lm args alg m ds zs1 loc of
        Inl e \<Rightarrow> Inl e
      | Inr loc' \<Rightarrow> gsea_z_loop engine lm args alg m ds zs2 loc')"
  by (induction zs1 arbitrary: loc) (auto split: sum.splits)

lemma gsea_alg_loop_append:
  "gsea_alg_loop engine lm args ds (algs1 @ algs2) loc =
     (case gsea_alg_loop engine lm args ds algs1 loc of
        Inl e \<Rightarrow> Inl e
      | Inr loc' \<Rightarrow> gsea_alg_loop engine lm args ds algs2 loc')"
  by (induction algs1 arbitrary: loc) (auto simp: Let_def split: sum.splits option.splits)

lemma pipeline_seed_loop_append:
  "pipeline_seed_loop read_table read_url engine zd dataset num_perm shuf algs ds translate gene_sets
     (wm1 @ wm2) acc =
     (case pipeline_seed_loop read_table read_url engine zd dataset num_perm shuf algs ds translate
             gene_sets wm1 acc of
        Inl e \<Rightarrow> Inl e
      | Inr acc' \<Rightarrow>
          pipeline_seed_loop read_table read_url engine zd dataset num_perm shuf algs ds translate
            gene_sets wm2 acc')"
  by (induction wm1 arbitrary: acc) (auto split: sum.splits)

lemma aggregator_aborts:
  assumes z: "z_dim lm = Some z"
    and zs: "[0 ..< nat z] = zs1 @ cz # zs2"
    and algs: "gsea_alg_loop engine lm args (ds1 @ d # ds2) algs1
                 \<lparr>use_df = None, use_pos_df = None, use_neg_df = None, current_z_list = []\<rparr> = Inr loc1"
    and dims: "gsea_z_loop engine lm args alg
                 (map (\<lambda>(name, col). str_contains alg name) (df_columns (w_df lm))) (ds1 @ d # ds2) zs1 loc1 =
               Inr loc2"
    and dists: "gsea_distrib_loop engine lm args alg
                  (map (\<lambda>(name, col). str_contains alg name) (df_columns (w_df lm))) cz ds1 loc2 = Inr loc3"
    and body: "gsea_body engine lm args alg
                 (map (\<lambda>(name, col). str_contains alg name) (df_columns (w_df lm))) cz d loc3 = Inl e"
  shows "get_gsea_compressed_matrix engine lm (algs1 @ alg # algs2) (ds1 @ d # ds2) args = Inl e"
proof -
  let ?m = "map (\<lambda>(name, col). str_contains alg name) (df_columns (w_df lm))"
  let ?ds = "ds1 @ d # ds2"
  have "gsea_distrib_loop engine lm args alg ?m cz ?ds loc2 = Inl e"
    using dists body by (simp add: gsea_distrib_loop_append)
  then have "gsea_z_loop engine lm args alg ?m ?ds (zs1 @ cz # zs2) loc1 = Inl e"
    using dims by (simp add: gsea_z_loop_append)
  then have "gsea_alg_loop engine lm args ?ds (alg # algs2) loc1 = Inl e"
    using z zs by (simp add: Let_def)
  then have "gsea_alg_loop engine lm args ?ds (algs1 @ alg # algs2)
               \<lparr>use_df = None, use_pos_df = None, use_neg_df = None, current_z_list = []\<rparr> = Inl e"
    using algs by (simp add: gsea_alg_loop_append)
  then show ?thesis
    by (simp add: get_gsea_compressed_matrix_def)
qed

lemma pipeline_aborts:
  assumes "collect_weight_matrices (glob (input_weight_dir @ ''/*_weight_matrix*'')) [] =
             Inr (wm1 @ (sd, file) # wm2)"
    and "pipeline_seed_loop read_table read_url engine zd dataset num_perm shuf algs ds translate
           gene_sets wm1 [] = Inr finished"
    and "pipeline_seed read_table read_url engine zd dataset num_perm shuf algs ds translate gene_sets
           sd file = Inl e"
  shows "run_gsea_pipeline_command glob read_table read_url engine input_weight_dir zd dataset num_perm
           shuf algs ds translate gene_sets = Inl e"
  using assms by (simp add: run_gsea_pipeline_command_def pipeline_seed_loop_append)

lemma engine_failure_raises:
  "use_df loc = Some u \<Longrightarrow> engine u (arg_num_perm args) (arg_gene_sets args) = Inl e \<Longrightarrow>
   run_direction engine args alg cz d dir loc = Inl e"
  by (simp add: run_direction_def get_gsea_results_def)

lemma full_only_body:
  "gsea_body engine lm args alg m cz ''full'' loc =
     (case get_compressed_feature (cells_frame (w_df lm)) m cz of
        Inl e \<Rightarrow> Inl e
      | Inr f \<Rightarrow> run_direction engine args alg cz ''full'' ''both'' (loc\<lparr>use_df := Some f\<rparr>))"
  by (simp add: gsea_body_def select_distribution_def split: sum.splits)

lemma upt_two: "[0 ..< (2::nat)] = [0, 1]"
  by (simp add: upt_rec)

lemma load_example:
  "load_gene_dict example_read_url lm default_hash =
     Inr (lm\<lparr>gene_dictionary_df := Some (protein_coding example_genes), is_gene_dictionary_loaded := True\<rparr>)"
  by (simp add: load_gene_dict_def example_read_url_def)

lemma seed_int: "py_int (SeedStr ''123'') = Inr 123"
  by code_simp

lemma init_example:
  "latentModel_init example_read_table ''w/x_123_weight_matrix.tsv'' (Some z) (Some ''tcga'') None
     (SeedStr ''123'') False =
   Inr (blank_model \<lparr>df_index = [Some (StrId ''1''), Some (StrId ''2'')], df_columns = snd example_file\<rparr> z
         \<lparr>filename := ''w/x_123_weight_matrix.tsv'', dataset_name := ''TCGA''\<rparr>)"
  by (simp add: latentModel_init_def example_read_table_def seed_int Let_def blank_model_def
      example_file_def py_str_def str_int_def digit_chars_def str_upper_def ascii_lowercase_def
      ascii_uppercase_def)

lemma file_cells:
  "cells_frame \<lparr>df_index = [Some (StrId ''1''), Some (StrId ''2'')], df_columns = snd example_file\<rparr> =
     \<lparr>df_index = [Some (StrId ''1''), Some (StrId ''2'')],
      df_columns = [(''PCA_0'', [Num 4, Num 5]), (''pca_0'', [Num 1, Num (- 2)]), (''pca_1'', [Num 3, NA])]\<rparr>"
  by (simp add: cells_frame_def example_file_def weight_cell_def)

lemma file_mask:
  "map (\<lambda>(name, col). str_contains ''pca'' name) (snd example_file) = [False, True, True]"
  by (simp add: example_file_def)

lemma pipeline_seed_fails:
  "pipeline_seed example_read_table example_read_url strict_engine 2 ''tcga'' 15 False [''pca''] [''full'']
     False ''KEGG_2016'' ''123'' ''w/x_123_weight_matrix.tsv'' = Inl (ValueError ''missing score'')"
  by (simp add: pipeline_seed_def init_example load_example get_gsea_compressed_matrix_def
      views_keep_weights Let_def full_only_body blank_model_def file_cells file_mask upt_two
      get_compressed_feature_def loc_columns_def run_direction_def get_gsea_results_def
      strict_engine_def)

lemma pipeline_seed_succeeds:
  "pipeline_seed example_read_table example_read_url strict_engine 1 ''tcga'' 15 False [''pca''] [''full'']
     False ''KEGG_2016'' ''123'' ''w/x_123_weight_matrix.tsv'' =
   Inr [(''pca_0'', \<lparr>distrib = ''full'', algorithm = ''pca'', current_z = 0, full_z = 1,
                     shuffled = False, direction = ''both'', seed = ''123''\<rparr>)]"
  by (simp add: pipeline_seed_def init_example load_example get_gsea_compressed_matrix_def
      views_keep_weights Let_def full_only_body blank_model_def file_cells file_mask
      get_compressed_feature_def loc_columns_def run_direction_def get_gsea_results_def
      strict_engine_def pd_concat_def)

lemma collect_example:
  "collect_weight_matrices (example_glob (''w'' @ ''/*_weight_matrix*'')) [] =
     Inr ([] @ (''123'', ''w/x_123_weight_matrix.tsv'') # [])"
  by (simp add: example_glob_def seed_of_file_name_def Let_def)

lemma strict_first:
  "gsea_z_loop strict_engine (blank_model small_frame 2) example_args ''pca''
     (map (\<lambda>(name, col). str_contains ''pca'' name) (df_columns (w_df (blank_model small_frame 2))))
     ([] @ ''full'' # []) [0]
     \<lparr>use_df = None, use_pos_df = None, use_neg_df = None, current_z_list = []\<rparr> =
   Inr \<lparr>use_df = Some \<lparr>s_name = ''pca_0'', s_index = [Some (StrId ''1''), Some (StrId ''2'')],
                         s_values = [Num 1, Num (- 2)]\<rparr>,
        use_pos_df = None, use_neg_df = None,
        current_z_list = [[(''pca_0'', \<lparr>distrib = ''full'', algorithm = ''pca'', current_z = 0, full_z = 2,
                              shuffled = False, direction = ''both'', seed = ''123''\<rparr>)]]\<rparr>"
  by (simp add: blank_model_def small_frame_mask small_frame_cells full_only_body
      get_compressed_feature_def loc_columns_def run_direction_def get_gsea_results_def
      strict_engine_def example_args_def)

lemma strict_second:
  "gsea_body strict_engine (blank_model small_frame 2) example_args ''pca''
     (map (\<lambda>(name, col). str_contains ''pca'' name) (df_columns (w_df (blank_model small_frame 2))))
     1 ''full''
     \<lparr>use_df = Some \<lparr>s_name = ''pca_0'', s_index = [Some (StrId ''1''), Some (StrId ''2'')],
                       s_values = [Num 1, Num (- 2)]\<rparr>,
      use_pos_df = None, use_neg_df = None,
      current_z_list = [[(''pca_0'', \<lparr>distrib = ''full'', algorithm = ''pca'', current_z = 0, full_z = 2,
                            shuffled = False, direction = ''both'', seed = ''123''\<rparr>)]]\<rparr> =
   Inl (ValueError ''missing score'')"
  by (simp add: blank_model_def small_frame_mask small_frame_cells full_only_body
      get_compressed_feature_def loc_columns_def run_direction_def get_gsea_results_def
      strict_engine_def example_args_def)

text \<open>
  C5 (as amended). Nothing in the aggregator or in the pipeline command catches an
  exception. An engine failure is the failure of the combination being processed; the
  failure of a combination, reached after the combinations before it have succeeded,
  is the outcome of \<open>get_gsea_compressed_matrix\<close>, whatever the combinations after it
  would do; and the failure of one seed's run, reached after the seeds before it have
  succeeded, is the outcome of \<open>run_gsea_pipeline_command\<close>. In each case no results
  table is produced, nor written.
\<close>

theorem failure_aborts_batch:
  "(use_df loc = Some u \<and> engine u (arg_num_perm args) (arg_gene_sets args) = Inl e \<longrightarrow>
      run_direction engine args alg cz d dir loc = Inl e) \<and>
   (z_dim lm = Some z \<and> [0 ..< nat z] = zs_before @ cz # zs_after \<and>
    gsea_alg_loop engine lm args (ds_before @ d # ds_after) algs_before
      \<lparr>use_df = None, use_pos_df = None, use_neg_df = None, current_z_list = []\<rparr> = Inr loc_algs \<and>
    gsea_z_loop engine lm args alg
      (map (\<lambda>(name, col). str_contains alg name) (df_columns (w_df lm))) (ds_before @ d # ds_after) zs_before loc_algs = Inr loc_dims \<and>
    gsea_distrib_loop engine lm args alg
      (map (\<lambda>(name, col). str_contains alg name) (df_columns (w_df lm))) cz ds_before loc_dims = Inr loc_dists \<and>
    gsea_body engine lm args alg
      (map (\<lambda>(name, col). str_contains alg name) (df_columns (w_df lm))) cz d loc_dists = Inl e \<longrightarrow>
      get_gsea_compressed_matrix engine lm (algs_before @ alg # algs_after) (ds_before @ d # ds_after) args = Inl e) \<and>
   (collect_weight_matrices (glob (input_weight_dir @ ''/*_weight_matrix*'')) [] =
      Inr (seeds_before @ (sd, path) # seeds_after) \<and>
    pipeline_seed_loop read_table read_url engine zd dataset num_perm shuf algs ds translate gene_sets
      seeds_before [] = Inr finished \<and>
    pipeline_seed read_table read_url engine zd dataset num_perm shuf algs ds translate gene_sets
      sd path = Inl e \<longrightarrow>
      run_gsea_pipeline_command glob read_table read_url engine input_weight_dir zd dataset num_perm
        shuf algs ds translate gene_sets = Inl e)"
proof (intro conjI impI)
  assume "use_df loc = Some u \<and> engine u (arg_num_perm args) (arg_gene_sets args) = Inl e"
  then show "run_direction engine args alg cz d dir loc = Inl e"
    by (simp add: engine_failure_raises)
next
  assume a: "z_dim lm = Some z \<and> [0 ..< nat z] = zs_before @ cz # zs_after \<and>
    gsea_alg_loop engine lm args (ds_before @ d # ds_after) algs_before
      \<lparr>use_df = None, use_pos_df = None, use_neg_df = None, current_z_list = []\<rparr> = Inr loc_algs \<and>
    gsea_z_loop engine lm args alg
      (map (\<lambda>(name, col). str_contains alg name) (df_columns (w_df lm))) (ds_before @ d # ds_after) zs_before loc_algs = Inr loc_dims \<and>
    gsea_distrib_loop engine lm args alg
      (map (\<lambda>(name, col). str_contains alg name) (df_columns (w_df lm))) cz ds_before loc_dims = Inr loc_dists \<and>
    gsea_body engine lm args alg
      (map (\<lambda>(name, col). str_contains alg name) (df_columns (w_df lm))) cz d loc_dists = Inl e"
  show "get_gsea_compressed_matrix engine lm (algs_before @ alg # algs_after) (ds_before @ d # ds_after) args = Inl e"
    by (rule aggregator_aborts [of lm z zs_before cz zs_after engine args ds_before d ds_after algs_before loc_algs alg loc_dims loc_dists e])
       (simp_all add: a)
next
  assume a: "collect_weight_matrices (glob (input_weight_dir @ ''/*_weight_matrix*'')) [] =
      Inr (seeds_before @ (sd, path) # seeds_after) \<and>
    pipeline_seed_loop read_table read_url engine zd dataset num_perm shuf algs ds translate gene_sets
      seeds_before [] = Inr finished \<and>
    pipeline_seed read_table read_url engine zd dataset num_perm shuf algs ds translate gene_sets
      sd path = Inl e"
  show "run_gsea_pipeline_command glob read_table read_url engine input_weight_dir zd dataset num_perm
        shuf algs ds translate gene_sets = Inl e"
    by (rule pipeline_aborts [of glob input_weight_dir seeds_before sd path seeds_after read_table read_url engine zd
          dataset num_perm shuf algs ds translate gene_sets finished e])
       (simp_all add: a)
qed

theorem failure_aborts_batch_witness:
  "use_df (after_first\<lparr>use_df := Some missing_scores\<rparr>) = Some missing_scores \<and>
   strict_engine missing_scores (arg_num_perm example_args) (arg_gene_sets example_args) =
     Inl (ValueError ''missing score'') \<and>
   run_direction strict_engine example_args ''pca'' 1 ''full'' ''both''
     (after_first\<lparr>use_df := Some missing_scores\<rparr>) = Inl (ValueError ''missing score'') \<and>
   z_dim (blank_model small_frame 2) = Some 2 \<and>
   [0 ..< nat 2] = [0] @ 1 # [] \<and>
   gsea_alg_loop strict_engine (blank_model small_frame 2) example_args ([] @ ''full'' # []) []
     \<lparr>use_df = None, use_pos_df = None, use_neg_df = None, current_z_list = []\<rparr> = Inr start_locals \<and>
   gsea_z_loop strict_engine (blank_model small_frame 2) example_args ''pca''
     (map (\<lambda>(name, col). str_contains ''pca'' name) (df_columns (w_df (blank_model small_frame 2))))
     ([] @ ''full'' # []) [0] start_locals = Inr after_first \<and>
   gsea_distrib_loop strict_engine (blank_model small_frame 2) example_args ''pca''
     (map (\<lambda>(name, col). str_contains ''pca'' name) (df_columns (w_df (blank_model small_frame 2))))
     1 [] after_first = Inr after_first \<and>
   gsea_body strict_engine (blank_model small_frame 2) example_args ''pca''
     (map (\<lambda>(name, col). str_contains ''pca'' name) (df_columns (w_df (blank_model small_frame 2))))
     1 ''full'' after_first = Inl (ValueError ''missing score'') \<and>
   get_gsea_compressed_matrix strict_engine (blank_model small_frame 2) ([] @ ''pca'' # [])
     ([] @ ''full'' # []) example_args = Inl (ValueError ''missing score'') \<and>
   collect_weight_matrices (example_glob (''w'' @ ''/*_weight_matrix*'')) [] =
     Inr ([] @ (''123'', ''w/x_123_weight_matrix.tsv'') # []) \<and>
   pipeline_seed_loop example_read_table example_read_url strict_engine 2 ''tcga'' 15 False [''pca'']
     [''full''] False ''KEGG_2016'' [] [] = Inr [] \<and>
   pipeline_seed example_read_table example_read_url strict_engine 2 ''tcga'' 15 False [''pca''] [''full'']
     False ''KEGG_2016'' ''123'' ''w/x_123_weight_matrix.tsv'' = Inl (ValueError ''missing score'') \<and>
   run_gsea_pipeline_command example_glob example_read_table example_read_url strict_engine ''w'' 2
     ''tcga'' 15 False [''pca''] [''full''] False ''KEGG_2016'' = Inl (ValueError ''missing score'')"
proof -
  let ?M = "blank_model small_frame 2"
  let ?m = "map (\<lambda>(name, col). str_contains ''pca'' name) (df_columns (w_df ?M))"
  let ?e = "ValueError ''missing score''"
  have e1: "use_df (after_first\<lparr>use_df := Some missing_scores\<rparr>) = Some missing_scores"
    by simp
  have e2: "strict_engine missing_scores (arg_num_perm example_args) (arg_gene_sets example_args) = Inl ?e"
    by (simp add: strict_engine_def missing_scores_def)
  have c1: "run_direction strict_engine example_args ''pca'' 1 ''full'' ''both''
              (after_first\<lparr>use_df := Some missing_scores\<rparr>) = Inl ?e"
    by (rule failure_aborts_batch [where loc = "after_first\<lparr>use_df := Some missing_scores\<rparr>"
          and u = missing_scores and engine = strict_engine and args = example_args and e = ?e
          and alg = "''pca''" and cz = 1 and d = "''full''" and dir = "''both''",
          THEN conjunct1, THEN mp])
       (intro conjI e1 e2)
  have a1: "z_dim ?M = Some 2"
    by (simp add: blank_model_def)
  have a2: "[0 ..< nat 2] = [0] @ 1 # []"
    by (simp add: upt_rec)
  have a3: "gsea_alg_loop strict_engine ?M example_args ([] @ ''full'' # []) []
              \<lparr>use_df = None, use_pos_df = None, use_neg_df = None, current_z_list = []\<rparr> =
            Inr start_locals"
    by (simp add: start_locals_def)
  have a4: "gsea_z_loop strict_engine ?M example_args ''pca'' ?m ([] @ ''full'' # []) [0] start_locals =
              Inr after_first"
    unfolding start_locals_def after_first_def by (rule strict_first)
  have a5: "gsea_distrib_loop strict_engine ?M example_args ''pca'' ?m 1 [] after_first = Inr after_first"
    by simp
  have a6: "gsea_body strict_engine ?M example_args ''pca'' ?m 1 ''full'' after_first = Inl ?e"
    unfolding after_first_def by (rule strict_second)
  have c2: "get_gsea_compressed_matrix strict_engine ?M ([] @ ''pca'' # []) ([] @ ''full'' # [])
              example_args = Inl ?e"
    by (rule failure_aborts_batch [where lm = ?M and z = 2 and zs_before = "[0]" and cz = 1 and zs_after = "[]"
          and engine = strict_engine and args = example_args and ds_before = "[]" and d = "''full''"
          and ds_after = "[]" and algs_before = "[]" and alg = "''pca''" and algs_after = "[]"
          and loc_algs = start_locals and loc_dims = after_first and loc_dists = after_first and e = ?e,
          THEN conjunct2, THEN conjunct1, THEN mp])
       (intro conjI a1 a2 a3 a4 a5 a6)
  have p1: "collect_weight_matrices (example_glob (''w'' @ ''/*_weight_matrix*'')) [] =
              Inr ([] @ (''123'', ''w/x_123_weight_matrix.tsv'') # [])"
    by (rule collect_example)
  have p2: "pipeline_seed_loop example_read_table example_read_url strict_engine 2 ''tcga'' 15 False
              [''pca''] [''full''] False ''KEGG_2016'' [] [] = Inr []"
    by simp
  have p3: "pipeline_seed example_read_table example_read_url strict_engine 2 ''tcga'' 15 False [''pca'']
              [''full''] False ''KEGG_2016'' ''123'' ''w/x_123_weight_matrix.tsv'' = Inl ?e"
    by (rule pipeline_seed_fails)
  have c3: "run_gsea_pipeline_command example_glob example_read_table example_read_url strict_engine ''w''
              2 ''tcga'' 15 False [''pca''] [''full''] False ''KEGG_2016'' = Inl ?e"
    by (rule failure_aborts_batch [where glob = example_glob and input_weight_dir = "''w''" and seeds_before = "[]"
          and sd = "''123''" and path = "''w/x_123_weight_matrix.tsv''" and seeds_after = "[]"
          and read_table = example_read_table and read_url = example_read_url and engine = strict_engine
          and zd = 2 and dataset = "''tcga''" and num_perm = 15 and shuf = False and algs = "[''pca'']"
          and ds = "[''full'']" and translate = False and gene_sets = "''KEGG_2016''" and finished = "[]"
          and e = ?e, THEN conjunct2, THEN conjunct2, THEN mp])
       (intro conjI p1 p2 p3)
  from e1 e2 c1 a1 a2 a3 a4 a5 a6 c2 p1 p2 p3 c3 show ?thesis
    by (intro conjI)
qed

text \<open>
  With the strict engine the combination (\<open>pca\<close>, 0, \<open>full\<close>) succeeds and the
  combination (\<open>pca\<close>, 1, \<open>full\<close>) fails. Run with one latent dimension, the
  aggregator and the pipeline return the row of the first combination; run with two,
  both return the engine's exception and no table, not even with that row.
\<close>

theorem failure_aborts_batch_counterexample:
  "get_gsea_compressed_matrix strict_engine (blank_model small_frame 1) [''pca''] [''full''] example_args =
     Inr [(''pca_0'', \<lparr>distrib = ''full'', algorithm = ''pca'', current_z = 0, full_z = 2,
                       shuffled = False, direction = ''both'', seed = ''123''\<rparr>)] \<and>
   get_gsea_compressed_matrix strict_engine (blank_model small_frame 2) [''pca''] [''full''] example_args =
     Inl (ValueError ''missing score'') \<and>
   run_gsea_pipeline_command example_glob example_read_table example_read_url strict_engine ''w'' 1
     ''tcga'' 15 False [''pca''] [''full''] False ''KEGG_2016'' =
     Inr (''results/gsea/gsea_results_tcga_zdim_1.tsv'',
          [(''pca_0'', \<lparr>distrib = ''full'', algorithm = ''pca'', current_z = 0, full_z = 1,
                         shuffled = False, direction = ''both'', seed = ''123''\<rparr>)]) \<and>
   run_gsea_pipeline_command example_glob example_read_table example_read_url strict_engine ''w'' 2
     ''tcga'' 15 False [''pca''] [''full''] False ''KEGG_2016'' = Inl (ValueError ''missing score'')"
proof (intro conjI)
  show "get_gsea_compressed_matrix strict_engine (blank_model small_frame 1) [''pca''] [''full''] example_args =
     Inr [(''pca_0'', \<lparr>distrib = ''full'', algorithm = ''pca'', current_z = 0, full_z = 2,
                       shuffled = False, direction = ''both'', seed = ''123''\<rparr>)]"
    by (simp add: get_gsea_compressed_matrix_def Let_def blank_model_def small_frame_mask
        small_frame_cells full_only_body get_compressed_feature_def loc_columns_def run_direction_def
        get_gsea_results_def strict_engine_def example_args_def pd_concat_def)
  show "get_gsea_compressed_matrix strict_engine (blank_model small_frame 2) [''pca''] [''full''] example_args =
     Inl (ValueError ''missing score'')"
    by (simp add: get_gsea_compressed_matrix_def Let_def blank_model_def small_frame_mask
        small_frame_cells full_only_body upt_two get_compressed_feature_def loc_columns_def
        run_direction_def get_gsea_results_def strict_engine_def example_args_def pd_concat_def)
  show "run_gsea_pipeline_command example_glob example_read_table example_read_url strict_engine ''w'' 1
     ''tcga'' 15 False [''pca''] [''full''] False ''KEGG_2016'' =
     Inr (''results/gsea/gsea_results_tcga_zdim_1.tsv'',
          [(''pca_0'', \<lparr>distrib = ''full'', algorithm = ''pca'', current_z = 0, full_z = 1,
                         shuffled = False, direction = ''both'', seed = ''123''\<rparr>)])"
    using collect_example
    by (simp add: run_gsea_pipeline_command_def pipeline_seed_succeeds pd_concat_def str_int_def
        digit_chars_def)
  show "run_gsea_pipeline_command example_glob example_read_table example_read_url strict_engine ''w'' 2
     ''tcga'' 15 False [''pca''] [''full''] False ''KEGG_2016'' = Inl (ValueError ''missing score'')"
    using collect_example
    by (simp add: run_gsea_pipeline_command_def pipeline_seed_fails)
qed

section \<open>Properties of the synonym map\<close>

lemma py_dict_SomeD: "py_dict kvs k = Some v \<Longrightarrow> (k, v) \<in> set kvs"
  unfolding py_dict_def by (drule map_of_SomeD) simp

lemma py_dict_None_iff: "py_dict kvs k = None \<longleftrightarrow> k \<notin> fst ` set kvs"
  by (simp add: py_dict_def map_of_eq_None_iff)

lemma py_dict_distinct: "distinct (map fst kvs) \<Longrightarrow> (k, v) \<in> set kvs \<Longrightarrow> py_dict kvs k = Some v"
  unfolding py_dict_def by (rule map_of_is_SomeI) (simp_all add: rev_map [symmetric])

lemma count_list_filter_le: "count_list (map f (filter P xs)) k \<le> count_list (map f xs) k"
  by (induction xs) auto

lemma distinct_count_le_1: "(\<And>k. k \<in> set xs \<Longrightarrow> count_list xs k \<le> 1) \<Longrightarrow> distinct xs"
proof (induction xs)
  case Nil
  then show ?case by simp
next
  case (Cons x xs)
  have "count_list (x # xs) x \<le> 1" by (rule Cons.prems) simp
  then have "count_list xs x = 0" by simp
  then have notin: "x \<notin> set xs" by (simp add: count_list_0_iff)
  have "\<And>k. k \<in> set xs \<Longrightarrow> count_list xs k \<le> 1"
  proof -
    fix k assume "k \<in> set xs"
    then have "count_list (x # xs) k \<le> 1" by (intro Cons.prems) simp
    then show "count_list xs k \<le> 1" by (simp split: if_splits)
  qed
  then have "distinct xs" by (rule Cons.IH)
  with notin show ?case by simp
qed

lemma two_rows_count:
  "(a, s) \<in> set rows \<Longrightarrow> (b, s) \<in> set rows \<Longrightarrow> a \<noteq> b \<Longrightarrow> 2 \<le> count_list (map snd rows) s"
proof (induction rows)
  case Nil
  then show ?case by simp
next
  case (Cons r rows)
  show ?case
  proof (cases "snd r = s")
    case False
    with Cons show ?thesis by auto
  next
    case True
    from Cons.prems have "(a, s) \<in> set rows \<or> (b, s) \<in> set rows" by auto
    then have "s \<in> set (map snd rows)" by force
    then have "count_list (map snd rows) s \<noteq> 0" unfolding count_list_0_iff by simp
    then have "0 < count_list (map snd rows) s" by simp
    with True show ?thesis by simp
  qed
qed

lemma drop_duplicates_iff:
  "(g, s) \<in> set (drop_duplicates rows) \<longleftrightarrow> (g, s) \<in> set rows \<and> count_list (map snd rows) s = 1"
  by (auto simp: drop_duplicates_def)

lemma distinct_drop_duplicates: "distinct (map snd (drop_duplicates rows))"
proof (rule distinct_count_le_1)
  fix k assume "k \<in> set (map snd (drop_duplicates rows))"
  then obtain g where "(g, k) \<in> set (drop_duplicates rows)" by auto
  then have "count_list (map snd rows) k = 1" by (simp add: drop_duplicates_iff)
  moreover have "count_list (map snd (drop_duplicates rows)) k \<le> count_list (map snd rows) k"
    unfolding drop_duplicates_def by (rule count_list_filter_le)
  ultimately show "count_list (map snd (drop_duplicates rows)) k \<le> 1" by simp
qed

lemma query_iff:
  "(g, s) \<in> set (query_symbol_not_in_all_synonyms rows) \<longleftrightarrow>
     (g, s) \<in> set rows \<and> symbol g \<notin> snd ` set rows"
  by (auto simp: query_symbol_not_in_all_synonyms_def)

lemma distinct_query: "distinct (map snd rows) \<Longrightarrow> distinct (map snd (query_symbol_not_in_all_synonyms rows))"
  unfolding query_symbol_not_in_all_synonyms_def by (rule distinct_map_filter)

lemma synonym_to_entrez_alt:
  "synonym_to_entrez gene_df = py_dict (map (\<lambda>(g, s). (s, entrez_gene_id g)) (gene_with_syn_df gene_df))"
  by (simp add: synonym_to_entrez_def zip_map_map zip_same_conv_map case_prod_unfold comp_def)

lemma synonym_to_entrez_Some_iff:
  "synonym_to_entrez gene_df s = Some i \<longleftrightarrow>
     (\<exists>g. (g, s) \<in> set (gene_with_syn_df gene_df) \<and> i = entrez_gene_id g)"
proof
  assume "synonym_to_entrez gene_df s = Some i"
  then have "(s, i) \<in> set (map (\<lambda>(g, s). (s, entrez_gene_id g)) (gene_with_syn_df gene_df))"
    unfolding synonym_to_entrez_alt by (rule py_dict_SomeD)
  then show "\<exists>g. (g, s) \<in> set (gene_with_syn_df gene_df) \<and> i = entrez_gene_id g" by auto
next
  assume "\<exists>g. (g, s) \<in> set (gene_with_syn_df gene_df) \<and> i = entrez_gene_id g"
  then obtain g where g: "(g, s) \<in> set (gene_with_syn_df gene_df)" and i: "i = entrez_gene_id g" by blast
  have "distinct (map snd (gene_with_syn_df gene_df))"
    unfolding gene_with_syn_df_def by (rule distinct_query) (rule distinct_drop_duplicates)
  then have "distinct (map fst (map (\<lambda>(g, s). (s, entrez_gene_id g)) (gene_with_syn_df gene_df)))"
    by (simp add: case_prod_unfold comp_def)
  moreover have "(s, i) \<in> set (map (\<lambda>(g, s). (s, entrez_gene_id g)) (gene_with_syn_df gene_df))"
    using g i by force
  ultimately show "synonym_to_entrez gene_df s = Some i"
    unfolding synonym_to_entrez_alt by (rule py_dict_distinct)
qed

text \<open>
  C6 (as amended). A synonym that occurs in more than one row of the synonym table,
  in particular under two different genes, is no key of the synonym map. A row whose
  gene's primary symbol is itself one of the remaining synonyms is dropped too, so
  its synonym is no key. Every other row's synonym is a key and maps to its gene's
  id. The merged map is the primary map updated with the synonym map: a synonym that
  is kept wins over a primary symbol of the same name.
\<close>

theorem synonym_map_entries:
  "(2 \<le> count_list (map snd (all_syn gene_df)) s \<longrightarrow> synonym_to_entrez gene_df s = None) \<and>
   ((g, s) \<in> set (all_syn gene_df) \<and> symbol g \<in> snd ` set (drop_duplicates (all_syn gene_df)) \<longrightarrow>
      synonym_to_entrez gene_df s = None) \<and>
   ((g, s) \<in> set (all_syn gene_df) \<and> count_list (map snd (all_syn gene_df)) s = 1 \<and>
    symbol g \<notin> snd ` set (drop_duplicates (all_syn gene_df)) \<longrightarrow>
      synonym_to_entrez gene_df s = Some (entrez_gene_id g)) \<and>
   symbol_to_entrez gene_df s =
     (case synonym_to_entrez gene_df s of Some i \<Rightarrow> Some i | None \<Rightarrow> primary_symbol_to_entrez gene_df s)"
proof (intro conjI impI)
  let ?rows = "all_syn gene_df"
  have mem: "\<And>g' s'. (g', s') \<in> set (gene_with_syn_df gene_df) \<longleftrightarrow>
      (g', s') \<in> set ?rows \<and> count_list (map snd ?rows) s' = 1 \<and>
      symbol g' \<notin> snd ` set (drop_duplicates ?rows)"
    by (simp add: gene_with_syn_df_def query_iff drop_duplicates_iff)
  {
    assume dup: "2 \<le> count_list (map snd ?rows) s"
    show "synonym_to_entrez gene_df s = None"
    proof (cases "synonym_to_entrez gene_df s")
      case None
      then show ?thesis .
    next
      case (Some i)
      then obtain g' where "(g', s) \<in> set (gene_with_syn_df gene_df)"
        by (auto simp: synonym_to_entrez_Some_iff)
      then have "count_list (map snd ?rows) s = 1" by (simp add: mem)
      with dup show ?thesis by simp
    qed
  }
  {
    assume a: "(g, s) \<in> set ?rows \<and> symbol g \<in> snd ` set (drop_duplicates ?rows)"
    show "synonym_to_entrez gene_df s = None"
    proof (cases "synonym_to_entrez gene_df s")
      case None
      then show ?thesis .
    next
      case (Some i)
      then obtain g' where g': "(g', s) \<in> set (gene_with_syn_df gene_df)"
        by (auto simp: synonym_to_entrez_Some_iff)
      then have c: "count_list (map snd ?rows) s = 1" and r: "(g', s) \<in> set ?rows"
        and n: "symbol g' \<notin> snd ` set (drop_duplicates ?rows)"
        by (simp_all add: mem)
      have "g' = g"
      proof (rule ccontr)
        assume "g' \<noteq> g"
        with r a have "2 \<le> count_list (map snd ?rows) s" by (intro two_rows_count [of g' s ?rows g]) simp_all
        with c show False by simp
      qed
      with n a show ?thesis by simp
    qed
  }
  {
    assume "(g, s) \<in> set ?rows \<and> count_list (map snd ?rows) s = 1 \<and>
            symbol g \<notin> snd ` set (drop_duplicates ?rows)"
    then have "(g, s) \<in> set (gene_with_syn_df gene_df)" by (simp add: mem)
    then show "synonym_to_entrez gene_df s = Some (entrez_gene_id g)"
      by (auto simp: synonym_to_entrez_Some_iff)
  }
  show "symbol_to_entrez gene_df s =
     (case synonym_to_entrez gene_df s of Some i \<Rightarrow> Some i | None \<Rightarrow> primary_symbol_to_entrez gene_df s)"
    by (simp add: symbol_to_entrez_def map_add_def split: option.splits)
qed


theorem synonym_map_entries_witness:
  "2 \<le> count_list (map snd (all_syn example_genes)) ''Y'' \<and>
   synonym_to_entrez example_genes ''Y'' = None \<and>
   (gene_A, ''X'') \<in> set (all_syn example_genes) \<and>
   symbol gene_A \<in> snd ` set (drop_duplicates (all_syn example_genes)) \<and>
   synonym_to_entrez example_genes ''X'' = None \<and>
   (gene_C, ''Z'') \<in> set (all_syn example_genes) \<and>
   count_list (map snd (all_syn example_genes)) ''Z'' = 1 \<and>
   symbol gene_C \<notin> snd ` set (drop_duplicates (all_syn example_genes)) \<and>
   synonym_to_entrez example_genes ''Z'' = Some 3 \<and>
   symbol_to_entrez example_genes ''Z'' = Some 3"
proof -
  have rows: "all_syn example_genes =
      [(gene_A, ''X''), (gene_A, ''Y''), (gene_B, ''A''), (gene_B, ''Y''), (gene_C, ''Z'')]"
    by (simp add: all_syn_def protein_coding_def example_genes_def gene_A_def gene_B_def gene_C_def
        gene_D_def gene_E_def)
  have dd: "drop_duplicates (all_syn example_genes) = [(gene_A, ''X''), (gene_B, ''A''), (gene_C, ''Z'')]"
    by (simp add: rows drop_duplicates_def)
  have h1: "2 \<le> count_list (map snd (all_syn example_genes)) ''Y''"
    by (simp add: rows)
  have sa: "symbol gene_A = ''A''" and sc: "symbol gene_C = ''C''"
    by (simp_all add: gene_A_def gene_C_def)
  have h2: "(gene_A, ''X'') \<in> set (all_syn example_genes) \<and>
            symbol gene_A \<in> snd ` set (drop_duplicates (all_syn example_genes))"
    by (simp add: rows dd [unfolded rows] sa)
  have h3: "(gene_C, ''Z'') \<in> set (all_syn example_genes) \<and>
            count_list (map snd (all_syn example_genes)) ''Z'' = 1 \<and>
            symbol gene_C \<notin> snd ` set (drop_duplicates (all_syn example_genes))"
    by (simp add: rows dd [unfolded rows] sc)
  from h1 synonym_map_entries [of example_genes "''Y''"]
  have c1: "synonym_to_entrez example_genes ''Y'' = None" by blast
  from h2 synonym_map_entries [of example_genes "''X''" gene_A]
  have c2: "synonym_to_entrez example_genes ''X'' = None" by blast
  from h3 synonym_map_entries [of example_genes "''Z''" gene_C]
  have c3: "synonym_to_entrez example_genes ''Z'' = Some (entrez_gene_id gene_C) \<and>
            symbol_to_entrez example_genes ''Z'' =
              (case synonym_to_entrez example_genes ''Z'' of
                 Some i \<Rightarrow> Some i | None \<Rightarrow> primary_symbol_to_entrez example_genes ''Z'')"
    by blast
  then have c4: "synonym_to_entrez example_genes ''Z'' = Some 3 \<and> symbol_to_entrez example_genes ''Z'' = Some 3"
    by (simp add: gene_C_def)
  from h1 c1 h2 c2 h3 c4 show ?thesis by blast
qed

text \<open>
  The synonym \<open>A\<close> of gene \<open>B\<close> equals the primary symbol of gene \<open>A\<close>; it is a key
  of the synonym map all the same, and in the merged map \<open>A\<close> leads to gene \<open>B\<close>'s
  id 2 instead of gene \<open>A\<close>'s id 1.
\<close>

theorem synonym_map_entries_counterexample:
  "''A'' \<in> set (map symbol (protein_coding example_genes)) \<and>
   (gene_B, ''A'') \<in> set (all_syn example_genes) \<and>
   primary_symbol_to_entrez example_genes ''A'' = Some 1 \<and>
   synonym_to_entrez example_genes ''A'' = Some 2 \<and>
   symbol_to_entrez example_genes ''A'' = Some 2"
proof -
  have rows: "all_syn example_genes =
      [(gene_A, ''X''), (gene_A, ''Y''), (gene_B, ''A''), (gene_B, ''Y''), (gene_C, ''Z'')]"
    by (simp add: all_syn_def protein_coding_def example_genes_def gene_A_def gene_B_def gene_C_def
        gene_D_def gene_E_def)
  have dd: "drop_duplicates (all_syn example_genes) = [(gene_A, ''X''), (gene_B, ''A''), (gene_C, ''Z'')]"
    by (simp add: rows drop_duplicates_def)
  have sy: "symbol gene_A = ''A''" "symbol gene_B = ''B''" "symbol gene_C = ''C''"
    by (simp_all add: gene_A_def gene_B_def gene_C_def)
  have q: "gene_with_syn_df example_genes = [(gene_B, ''A''), (gene_C, ''Z'')]"
    by (simp add: gene_with_syn_df_def dd query_symbol_not_in_all_synonyms_def sy)
  have eb: "entrez_gene_id gene_B = 2"
    by (simp add: gene_B_def)
  have s: "synonym_to_entrez example_genes ''A'' = Some 2"
    by (simp add: synonym_to_entrez_def q py_dict_def eb)
  have p: "primary_symbol_to_entrez example_genes ''A'' = Some 1"
    by (simp add: primary_symbol_to_entrez_def protein_coding_def example_genes_def py_dict_def
        gene_A_def gene_B_def gene_C_def gene_D_def gene_E_def)
  have m: "symbol_to_entrez example_genes ''A'' = Some 2"
    by (simp add: symbol_to_entrez_def s)
  have a: "''A'' \<in> set (map symbol (protein_coding example_genes))"
    by (simp add: protein_coding_def example_genes_def gene_A_def)
  from a rows p s m show ?thesis by simp
qed

section \<open>Properties of the overrepresentation test\<close>

lemma overrep_loop_spec_rows:
  "overrep_loop fisher h gl G items (pvals, odds, names) =
     (case spec_rows fisher (map (\<lambda>(name, a). (name, contingency_table (h a) (h gl) G)) items) of
        Inl e \<Rightarrow> Inl e
      | Inr rows \<Rightarrow>
          Inr (pvals @ map (\<lambda>(n, p, o'). p) rows, odds @ map (\<lambda>(n, p, o'). o') rows,
               names @ map (\<lambda>(n, p, o'). n) rows))"
proof (induction items arbitrary: pvals odds names)
  case Nil
  then show ?case by simp
next
  case (Cons item items)
  obtain name a where item: "item = (name, a)" by (cases item)
  show ?case
  proof (cases "fisher (contingency_table (h a) (h gl) G)")
    case (Inl e)
    then show ?thesis using item by simp
  next
    case (Inr r)
    obtain oddsratio pvalue where r: "r = (oddsratio, pvalue)" by (cases r)
    show ?thesis
      using item Inr r Cons.IH [of "pvals @ [pvalue]" "odds @ [oddsratio]" "names @ [name]"]
      by (simp split: sum.splits)
  qed
qed

lemma zip_rows:
  "zip (map (\<lambda>(n, p, o'). n) rows) (zip (map (\<lambda>(n, p, o'). p) rows) (map (\<lambda>(n, p, o'). o') rows)) = rows"
  by (induction rows) auto

lemma run_overrepresentation_rows:
  "snd (run_overrepresentation fisher h gl d bg) =
     spec_rows fisher
       (map (\<lambda>(name, a).
               (name, contingency_table ((h(bg := h bg @ h gl)) a) ((h(bg := h bg @ h gl)) gl)
                        (int (card (set (h bg @ h gl))))))
            d)"
  unfolding run_overrepresentation_def Let_def
  by (simp add: overrep_loop_spec_rows zip_rows split: sum.splits)





text \<open>
  C3 (as amended). For candidates \<open>{A,B,C}\<close>, background \<open>{A,B,C,D,E}\<close> and the single
  gene set \<open>{A,B}\<close>, so \<open>m = 2\<close>, \<open>N = 3\<close>, \<open>P = 2\<close>, \<open>G = 5\<close>, the table the code builds
  is \<open>[[3,2],[1,3]]\<close>, since \<open>G - N - P + m + 1 = 3\<close>, and the run returns the test's odds
  ratio and p-value for that table.
\<close>

theorem overrepresentation_example_table:
  "contingency_table (example_store 2) (example_store 0) (int (card (set (example_store 1 @ example_store 0)))) =
     ((3, 2), (1, 3)) \<and>
   snd (run_overrepresentation fisher example_store 0 [(''S'', 2)] 1) =
     (case fisher ((3, 2), (1, 3)) of
        Inl e \<Rightarrow> Inl e
      | Inr (oddsratio, pvalue) \<Rightarrow> Inr [(''S'', pvalue, oddsratio)])"
proof -
  have t: "contingency_table (example_store 2) (example_store 0)
             (int (card (set (example_store 1 @ example_store 0)))) = ((3, 2), (1, 3))"
    by (simp add: contingency_table_def example_store_def insert_commute)
  have "snd (run_overrepresentation fisher example_store 0 [(''S'', 2)] 1) =
          spec_rows fisher [(''S'', contingency_table (example_store 2) (example_store 0)
                                     (int (card (set (example_store 1 @ example_store 0)))))]"
    by (simp add: run_overrepresentation_rows example_store_def)
  then have "snd (run_overrepresentation fisher example_store 0 [(''S'', 2)] 1) =
          spec_rows fisher [(''S'', ((3, 2), (1, 3)))]"
    unfolding t .
  then have "snd (run_overrepresentation fisher example_store 0 [(''S'', 2)] 1) =
     (case fisher ((3, 2), (1, 3)) of
        Inl e \<Rightarrow> Inl e
      | Inr (oddsratio, pvalue) \<Rightarrow> Inr [(''S'', pvalue, oddsratio)])"
    by (simp split: sum.splits)
  with t show ?thesis
    by (intro conjI)
qed

text \<open>
  The table of the claim, \<open>[[3,2],[1,5]]\<close>, is not the one built, and with the exact
  test the returned values, odds ratio 9/2 and p-value 11/21, are not those of the
  claimed table, 15/2 and 8/33.
\<close>

theorem overrepresentation_example_table_counterexample:
  "contingency_table (example_store 2) (example_store 0) (int (card (set (example_store 1 @ example_store 0)))) \<noteq>
     ((3, 2), (1, 5)) \<and>
   snd (run_overrepresentation fisher_two_sided example_store 0 [(''S'', 2)] 1) =
     Inr [(''S'', 11 / 21, Finite (9 / 2))] \<and>
   fisher_two_sided ((3, 2), (1, 5)) = Inr (Finite (15 / 2), 8 / 33)"
proof -
  have t: "contingency_table (example_store 2) (example_store 0)
             (int (card (set (example_store 1 @ example_store 0)))) = ((3, 2), (1, 3))"
    by (simp add: contingency_table_def example_store_def insert_commute)
  have f: "fisher_two_sided ((3, 2), (1, 3)) = Inr (Finite (9 / 2), 11 / 21)"
    by code_simp
  have g: "fisher_two_sided ((3, 2), (1, 5)) = Inr (Finite (15 / 2), 8 / 33)"
    by code_simp
  have "snd (run_overrepresentation fisher_two_sided example_store 0 [(''S'', 2)] 1) =
          spec_rows fisher_two_sided [(''S'', contingency_table (example_store 2) (example_store 0)
                                     (int (card (set (example_store 1 @ example_store 0)))))]"
    by (simp add: run_overrepresentation_rows example_store_def)
  then have "snd (run_overrepresentation fisher_two_sided example_store 0 [(''S'', 2)] 1) =
          spec_rows fisher_two_sided [(''S'', ((3, 2), (1, 3)))]"
    unfolding t .
  then have r: "snd (run_overrepresentation fisher_two_sided example_store 0 [(''S'', 2)] 1) =
          Inr [(''S'', 11 / 21, Finite (9 / 2))]"
    by (simp add: f)
  have n: "contingency_table (example_store 2) (example_store 0)
             (int (card (set (example_store 1 @ example_store 0)))) \<noteq> ((3, 2), (1, 5))"
    unfolding t by simp
  from n r g show ?thesis
    by (intro conjI)
qed

text \<open>
  C9 (as amended). The call extends the caller's background list object in place by
  the candidate list as it was before the call, so that object grows by the length of
  the candidate list, also when the test raises; every other list object, the
  candidate list and the gene-set lists among them when they are distinct from the
  background object, is left as it was.
\<close>

theorem run_overrepresentation_frame:
  "fst (run_overrepresentation fisher h gl d bg) bg = h bg @ h gl \<and>
   length (fst (run_overrepresentation fisher h gl d bg) bg) = length (h bg) + length (h gl) \<and>
   (\<forall>a. a \<noteq> bg \<longrightarrow> fst (run_overrepresentation fisher h gl d bg) a = h a)"
  by (simp add: run_overrepresentation_def Let_def)

theorem run_overrepresentation_frame_witness:
  "fst (run_overrepresentation fisher_two_sided example_store 0 [(''S'', 2)] 1) 1 =
     [''A'', ''B'', ''C'', ''D'', ''E'', ''A'', ''B'', ''C''] \<and>
   (0::addr) \<noteq> 1 \<and>
   fst (run_overrepresentation fisher_two_sided example_store 0 [(''S'', 2)] 1) 0 = [''A'', ''B'', ''C''] \<and>
   (2::addr) \<noteq> 1 \<and>
   fst (run_overrepresentation fisher_two_sided example_store 0 [(''S'', 2)] 1) 2 = [''A'', ''B'']"
  using run_overrepresentation_frame [of fisher_two_sided example_store 0 "[(''S'', 2)]" 1]
  by (simp add: example_store_def)

text \<open>
  When the candidate list and the background list are one object, the call mutates
  the candidate list: it is doubled.
\<close>

theorem run_overrepresentation_frame_counterexample:
  "fst (run_overrepresentation fisher_two_sided example_store 0 [(''S'', 2)] 0) 0 =
     [''A'', ''B'', ''C'', ''A'', ''B'', ''C''] \<and>
   fst (run_overrepresentation fisher_two_sided example_store 0 [(''S'', 2)] 0) 0 \<noteq> example_store 0"
  by (simp add: run_overrepresentation_def Let_def example_store_def)

end
